theory Spec2Isabelle
  imports Complex_Main
begin

section \<open>Values, exceptions and arrays\<close>

text \<open>
  The module \<^verbatim>\<open>cannon/dataset.py\<close> works on a label table (one named column per
  label, plus the columns \<^verbatim>\<open>id\<close> and \<^verbatim>\<open>SNRs\<close>) and on numpy arrays. The type \<open>'f\<close>
  stands for numpy's \<^verbatim>\<open>float64\<close> values (the finite ones, the infinities and \<^verbatim>\<open>nan\<close>);
  the operations of numpy on them are not part of the module and are parameters, so
  that nothing here depends on how they round. Every exception the Python raises is a
  value of \<open>error\<close>.
\<close>

datatype error = KeyError string | TypeError | IndexError | ValueError | AttributeError

text \<open>The name of the exception class, \<^verbatim>\<open>type(e).__name__\<close>.\<close>

fun exc_name :: "error \<Rightarrow> string" where
  "exc_name (KeyError msg) = ''KeyError''"
| "exc_name TypeError = ''TypeError''"
| "exc_name IndexError = ''IndexError''"
| "exc_name ValueError = ''ValueError''"
| "exc_name AttributeError = ''AttributeError''"

text \<open>A table cell or array element: a float or a string.\<close>

datatype 'f cell = Num 'f | Str string

text \<open>
  The operations of numpy and of Python on floats that the module uses, by the names
  of the ufuncs: \<open>np_add_reduce\<close> is the sum of a 1-D array (in whatever order numpy
  adds), \<open>np_float\<close> the conversion of a Python integer to a float, \<open>np_less\<close> the
  comparison \<^verbatim>\<open><\<close> (\<^verbatim>\<open>a > b\<close> is \<^verbatim>\<open>b < a\<close>), and \<open>np_str\<close> the string that a float
  becomes when numpy casts it to a string dtype.
\<close>

record 'f float_ops =
  np_add_reduce :: "'f list \<Rightarrow> 'f"
  np_add :: "'f \<Rightarrow> 'f \<Rightarrow> 'f"
  np_subtract :: "'f \<Rightarrow> 'f \<Rightarrow> 'f"
  np_multiply :: "'f \<Rightarrow> 'f \<Rightarrow> 'f"
  np_true_divide :: "'f \<Rightarrow> 'f \<Rightarrow> 'f"
  np_sqrt :: "'f \<Rightarrow> 'f"
  np_minimum :: "'f \<Rightarrow> 'f \<Rightarrow> 'f"
  np_maximum :: "'f \<Rightarrow> 'f \<Rightarrow> 'f"
  np_float :: "nat \<Rightarrow> 'f"
  np_less :: "'f \<Rightarrow> 'f \<Rightarrow> bool"
  np_str :: "'f \<Rightarrow> string"

text \<open>
  A 2-D array in row-major order, as numpy stores it: \<open>shape0\<close> is the number of rows,
  \<open>shape1\<close> the number of columns (kept apart, since an array with no row still has
  a second dimension).
\<close>

record 'a array2 =
  shape1 :: nat
  rows :: "'a list list"

definition shape0 :: "'a array2 \<Rightarrow> nat" where
  "shape0 A = length (rows A)"

definition wf_array :: "'a array2 \<Rightarrow> bool" where
  "wf_array A = list_all (\<lambda>r. length r = shape1 A) (rows A)"

text \<open>
  \<^verbatim>\<open>np.array(list_of_sequences)\<close> for sequences of one length. The array has one
  dtype: when a string stands among the elements, every float is cast to its string.
\<close>

fun is_Str :: "'f cell \<Rightarrow> bool" where
  "is_Str (Str s) = True"
| "is_Str (Num x) = False"

fun to_str :: "'f float_ops \<Rightarrow> 'f cell \<Rightarrow> 'f cell" where
  "to_str ops (Num x) = Str (np_str ops x)"
| "to_str ops (Str s) = Str s"

definition np_array :: "'f float_ops \<Rightarrow> 'f cell list list \<Rightarrow> 'f cell array2" where
  "np_array ops xss =
     \<lparr>shape1 = (case xss of [] \<Rightarrow> 0 | xs # _ \<Rightarrow> length xs),
      rows = (if list_ex (list_ex is_Str) xss then map (map (to_str ops)) xss else xss)\<rparr>"

text \<open>The attribute \<^verbatim>\<open>.T\<close>: element \<open>(s, j)\<close> of the result is element \<open>(j, s)\<close>.\<close>

definition np_transpose :: "'a array2 \<Rightarrow> 'a array2" where
  "np_transpose A =
     \<lparr>shape1 = length (rows A),
      rows = map (\<lambda>s. map (\<lambda>r. r ! s) (rows A)) [0..<shape1 A]\<rparr>"

text \<open>\<^verbatim>\<open>A[:, i]\<close>: numpy raises IndexError when the axis has no index \<open>i\<close>.\<close>

definition column :: "'a array2 \<Rightarrow> nat \<Rightarrow> error + 'a list" where
  "column A i = (if i < shape1 A then Inr (map (\<lambda>r. r ! i) (rows A)) else Inl IndexError)"

text \<open>
  \<^verbatim>\<open>xs[mask]\<close> with a boolean mask along the first axis: the entries whose mask is
  True, in their order; IndexError when the mask has another length than the axis.
\<close>

definition np_bool_index :: "'a list \<Rightarrow> bool list \<Rightarrow> error + 'a list" where
  "np_bool_index xs m =
     (if length m \<noteq> length xs then Inl IndexError
      else Inr (map fst (filter snd (zip xs m))))"

section \<open>The label table\<close>

text \<open>
  The table class behind \<^verbatim>\<open>self.data\<close> is not part of \<^verbatim>\<open>dataset.py\<close>; the module
  uses its membership test, its item lookup, \<^verbatim>\<open>select\<close>, \<^verbatim>\<open>where\<close>, \<^verbatim>\<open>resolve_alias\<close>
  and \<^verbatim>\<open>add_column\<close>. A table is its row count and its named columns.
\<close>

record 'f table =
  nrows :: nat
  columns :: "(string \<times> 'f cell list) list"

definition wf_table :: "'f table \<Rightarrow> bool" where
  "wf_table t = list_all (\<lambda>kc. length (snd kc) = nrows t) (columns t)"

text \<open>
  Modelled from the spec: the table's \<^verbatim>\<open>__contains__\<close> is missing; a name is in the
  table when it is the name of an existing column.
\<close>

definition table_contains :: "'f table \<Rightarrow> string \<Rightarrow> bool" where
  "table_contains t k = (k \<in> set (map fst (columns t)))"

text \<open>
  Modelled from the spec: the table's \<^verbatim>\<open>__getitem__\<close> is missing; the accessors pull
  the column of that name, and a missing column is a KeyError.
\<close>

definition table_getitem :: "'f table \<Rightarrow> string \<Rightarrow> error + 'f cell list" where
  "table_getitem t k =
     (case map_of (columns t) k of None \<Rightarrow> Inl (KeyError k) | Some c \<Rightarrow> Inr c)"

text \<open>
  Modelled from the spec: the table's \<^verbatim>\<open>select('*', indices=m)\<close> is missing; it keeps
  every column and the rows whose mask is True, in their original relative order, and
  fails when the mask length is not the row count.
\<close>

definition table_select :: "'f table \<Rightarrow> bool list \<Rightarrow> error + 'f table" where
  "table_select t m =
     (if length m \<noteq> nrows t then Inl IndexError
      else Inr \<lparr>nrows = length (filter id m),
                columns = map (\<lambda>kc. (fst kc, map fst (filter snd (zip (snd kc) m)))) (columns t)\<rparr>)"

section \<open>The class Dataset\<close>

text \<open>
  The attributes of a \<^verbatim>\<open>Dataset\<close>. \<open>priv_label_vals\<close> is \<^verbatim>\<open>_label_vals\<close> (\<open>None\<close>
  is Python's \<^verbatim>\<open>None\<close>). \<open>label_names\<close> may be \<^verbatim>\<open>None\<close>, the constructor's default.
  \<open>label_names_tex\<close> is \<open>None\<close> while the attribute does not exist (the constructor
  never assigns it), \<open>Some v\<close> once \<^verbatim>\<open>set_label_names_tex(v)\<close> has run.
\<close>

record 'f dataset =
  data :: "'f table"
  label_names :: "string list option"
  lams :: "'f list list"
  fluxes :: "'f list list"
  ivars :: "'f list list"
  priv_label_vals :: "'f cell array2 option"
  label_names_tex :: "string list option option"

definition reset_label_vals :: "'f dataset \<Rightarrow> 'f dataset" where
  "reset_label_vals ds = ds\<lparr>priv_label_vals := None\<rparr>"

definition set_label_vals :: "'f cell array2 \<Rightarrow> 'f dataset \<Rightarrow> 'f dataset" where
  "set_label_vals vals ds = ds\<lparr>priv_label_vals := Some vals\<rparr>"

definition set_label_names_tex :: "string list option \<Rightarrow> 'f dataset \<Rightarrow> 'f dataset" where
  "set_label_names_tex names ds = ds\<lparr>label_names_tex := Some names\<rparr>"

text \<open>
  \<^verbatim>\<open>Dataset.__init__\<close>. The table's \<^verbatim>\<open>add_column\<close> is missing from the module and is
  a parameter; when it raises, no dataset is built. The argument \<^verbatim>\<open>label_names_tex\<close>
  is accepted and dropped, as in the source.
\<close>

definition Dataset_init ::
  "('f table \<Rightarrow> string \<Rightarrow> 'f cell list \<Rightarrow> error + 'f table) \<Rightarrow> 'f table \<Rightarrow> 'f cell list \<Rightarrow>
   'f list list \<Rightarrow> 'f list list \<Rightarrow> 'f list list \<Rightarrow>
   string list option \<Rightarrow> string list option \<Rightarrow> error + 'f dataset" where
  "Dataset_init add_column label_vals0 SNRs0 lams0 fluxes0 ivars0 label_names0 label_names_tex0 =
     (case add_column label_vals0 ''SNRs'' SNRs0 of
        Inl e \<Rightarrow> Inl e
      | Inr d \<Rightarrow>
          Inr (reset_label_vals
                 \<lparr>data = d, label_names = label_names0, lams = lams0, fluxes = fluxes0,
                  ivars = ivars0, priv_label_vals = None, label_names_tex = None\<rparr>))"

text \<open>The properties \<^verbatim>\<open>IDs\<close> and \<^verbatim>\<open>SNRs\<close>.\<close>

definition IDs :: "'f dataset \<Rightarrow> error + 'f cell list" where
  "IDs ds = table_getitem (data ds) ''id''"

definition SNRs :: "'f dataset \<Rightarrow> error + 'f cell list" where
  "SNRs ds = table_getitem (data ds) ''SNRs''"

text \<open>
  \<^verbatim>\<open>get_plotting_labels\<close>: reading \<^verbatim>\<open>self.label_names_tex\<close> raises AttributeError
  while the attribute does not exist.
\<close>

definition get_plotting_labels :: "'f dataset \<Rightarrow> error + string list option" where
  "get_plotting_labels ds =
     (case label_names_tex ds of
        None \<Rightarrow> Inl AttributeError
      | Some None \<Rightarrow> Inr (label_names ds)
      | Some (Some tex) \<Rightarrow> Inr (Some tex))"

text \<open>
  \<^verbatim>\<open>choose_labels\<close>: \<^verbatim>\<open>self.label_names = []\<close>, then one append per resolved name; the
  loop stops at the first key that is not in the table, with what was appended so far.
  \<^verbatim>\<open>resolve_alias\<close> is a method of the missing table class and is a parameter.
\<close>

fun choose_labels_loop ::
  "('f table \<Rightarrow> string \<Rightarrow> string) \<Rightarrow> 'f table \<Rightarrow> string list \<Rightarrow> string list \<Rightarrow>
   error option \<times> string list" where
  "choose_labels_loop resolve_alias t [] names = (None, names)"
| "choose_labels_loop resolve_alias t (k # ks) names =
     (let key = resolve_alias t k in
      if \<not> table_contains t key
      then (Some (KeyError (''Attribute '' @ key @ '' not found'')), names)
      else choose_labels_loop resolve_alias t ks (names @ [key]))"

definition choose_labels ::
  "('f table \<Rightarrow> string \<Rightarrow> string) \<Rightarrow> string list \<Rightarrow> 'f dataset \<Rightarrow>
   error option \<times> 'f dataset" where
  "choose_labels resolve_alias cols ds =
     (case choose_labels_loop resolve_alias (data ds) cols [] of
        (e, names) \<Rightarrow> (e, ds\<lparr>label_names := Some names\<rparr>))"

text \<open>
  \<^verbatim>\<open>choose_objects\<close>: the mask is a boolean array or a string; for a string the mask
  comes from the table's \<^verbatim>\<open>where\<close>. Modelled from the spec: \<^verbatim>\<open>where\<close> is missing; it
  evaluates the filter expression against the label table to a boolean mask, and is
  the parameter \<open>table_where\<close>. The three assignments run in the source's order, and
  an exception leaves the assignments before it in place.
\<close>

datatype mask_arg = MaskArray "bool list" | MaskStr string

definition choose_objects ::
  "('f table \<Rightarrow> string \<Rightarrow> bool list) \<Rightarrow> mask_arg \<Rightarrow> 'f dataset \<Rightarrow>
   error option \<times> 'f dataset" where
  "choose_objects table_where msk ds =
     (let m = (case msk of MaskStr s \<Rightarrow> table_where (data ds) s | MaskArray b \<Rightarrow> b) in
      case table_select (data ds) m of
        Inl e \<Rightarrow> (Some e, ds)
      | Inr d \<Rightarrow>
          (let ds1 = ds\<lparr>data := d\<rparr> in
           case np_bool_index (fluxes ds1) m of
             Inl e \<Rightarrow> (Some e, ds1)
           | Inr f \<Rightarrow>
               (let ds2 = ds1\<lparr>fluxes := f\<rparr> in
                case np_bool_index (ivars ds2) m of
                  Inl e \<Rightarrow> (Some e, ds2)
                | Inr v \<Rightarrow> (None, ds2\<lparr>ivars := v\<rparr>))))"

text \<open>
  The property \<^verbatim>\<open>label_vals\<close>: the stored array when there is one, else
  \<^verbatim>\<open>np.array([self.data[k] for k in self.label_names]).T\<close>. Iterating
  \<^verbatim>\<open>label_names = None\<close> is a TypeError; the comprehension stops at the first
  missing column.
\<close>

fun getitems :: "'f table \<Rightarrow> string list \<Rightarrow> error + 'f cell list list" where
  "getitems t [] = Inr []"
| "getitems t (k # ks) =
     (case table_getitem t k of
        Inl e \<Rightarrow> Inl e
      | Inr c \<Rightarrow> (case getitems t ks of Inl e \<Rightarrow> Inl e | Inr cs \<Rightarrow> Inr (c # cs)))"

definition label_vals :: "'f float_ops \<Rightarrow> 'f dataset \<Rightarrow> error + 'f cell array2" where
  "label_vals ops ds =
     (case priv_label_vals ds of
        None \<Rightarrow>
          (case label_names ds of
             None \<Rightarrow> Inl TypeError
           | Some names \<Rightarrow>
               (case getitems (data ds) names of
                  Inl e \<Rightarrow> Inl e
                | Inr cols \<Rightarrow> Inr (np_transpose (np_array ops cols))))
      | Some vals \<Rightarrow> Inr vals)"

section \<open>Numerics of the diagnostics\<close>

text \<open>
  An array has a float dtype when every element is a float; numpy's reductions and
  comparisons with a float raise TypeError on an array of strings.
\<close>

fun cell_num :: "'f cell \<Rightarrow> 'f option" where
  "cell_num (Num x) = Some x"
| "cell_num (Str s) = None"

definition as_float :: "'f cell array2 \<Rightarrow> error + 'f array2" where
  "as_float A =
     (case those (map (\<lambda>r. those (map cell_num r)) (rows A)) of
        None \<Rightarrow> Inl TypeError
      | Some rs \<Rightarrow> Inr \<lparr>shape1 = shape1 A, rows = rs\<rparr>)"

text \<open>
  \<^verbatim>\<open>np.mean\<close> of a 1-D array, as numpy computes it: the sum of the values divided by
  their number (for no value, whatever the division of the empty sum by zero gives).
\<close>

definition np_mean :: "'f float_ops \<Rightarrow> 'f list \<Rightarrow> 'f" where
  "np_mean ops xs = np_true_divide ops (np_add_reduce ops xs) (np_float ops (length xs))"

text \<open>
  \<^verbatim>\<open>np.std\<close> of a 1-D array with the keyword \<^verbatim>\<open>ddof\<close>, as numpy computes it: the
  deviations from the mean, their squares, the sum of the squares divided by the number
  of values less \<^verbatim>\<open>ddof\<close>, and the square root of that. The module calls
  \<^verbatim>\<open>np.std(reference_labels, 0)\<close>, that is with numpy's default \<^verbatim>\<open>ddof = 0\<close>.
\<close>

definition np_std :: "'f float_ops \<Rightarrow> nat \<Rightarrow> 'f list \<Rightarrow> 'f" where
  "np_std ops ddof xs =
     (let arrmean = np_mean ops xs;
          x = map (\<lambda>a. np_subtract ops a arrmean) xs;
          x2 = map (\<lambda>d. np_multiply ops d d) x
      in np_sqrt ops
           (np_true_divide ops (np_add_reduce ops x2) (np_float ops (length xs - ddof))))"

text \<open>The reductions along axis 0 of a 2-D array: one value per column.\<close>

definition np_mean0 :: "'f float_ops \<Rightarrow> 'f array2 \<Rightarrow> 'f list" where
  "np_mean0 ops A = map (\<lambda>j. np_mean ops (map (\<lambda>r. r ! j) (rows A))) [0..<shape1 A]"

definition np_std0 :: "'f float_ops \<Rightarrow> 'f array2 \<Rightarrow> 'f list" where
  "np_std0 ops A = map (\<lambda>j. np_std ops 0 (map (\<lambda>r. r ! j) (rows A))) [0..<shape1 A]"

text \<open>\<^verbatim>\<open>lower = mean - 2 * stdev\<close> and \<^verbatim>\<open>upper = mean + 2 * stdev\<close>, elementwise.\<close>

definition lower_bounds :: "'f float_ops \<Rightarrow> 'f array2 \<Rightarrow> 'f list" where
  "lower_bounds ops A =
     map2 (\<lambda>m s. np_subtract ops m (np_multiply ops (np_float ops 2) s))
       (np_mean0 ops A) (np_std0 ops A)"

definition upper_bounds :: "'f float_ops \<Rightarrow> 'f array2 \<Rightarrow> 'f list" where
  "upper_bounds ops A =
     map2 (\<lambda>m s. np_add ops m (np_multiply ops (np_float ops 2) s))
       (np_mean0 ops A) (np_std0 ops A)"

text \<open>
  \<^verbatim>\<open>warning = np.logical_or(test_vals < lower[i], test_vals > upper[i])\<close>, for an
  index \<open>i\<close> that both bounds have.
\<close>

definition warning :: "'f float_ops \<Rightarrow> 'f list \<Rightarrow> 'f list \<Rightarrow> nat \<Rightarrow> 'f list \<Rightarrow> bool list" where
  "warning ops lower upper i test_vals =
     map (\<lambda>v. np_less ops v (lower ! i) \<or> np_less ops (upper ! i) v) test_vals"

text \<open>\<^verbatim>\<open>"%s" % n\<close> for a non-negative integer: its decimal digits.\<close>

definition digit_char :: "nat \<Rightarrow> char" where
  "digit_char d = ''0123456789'' ! d"

fun show_nat :: "nat \<Rightarrow> string" where
  "show_nat n = (if n < 10 then [digit_char n] else show_nat (n div 10) @ [digit_char (n mod 10)])"

declare show_nat.simps [simp del]

section \<open>The diagnostics after inference\<close>

text \<open>
  What \<^verbatim>\<open>dataset_postdiagnostics\<close> does to the outside, in order: it opens a file
  for writing, writes to the open file, prints a line, saves a figure.
\<close>

datatype event =
    FileOpen string
  | FileWrite string string
  | Print string
  | SaveFig string

text \<open>
  The loop \<^verbatim>\<open>for star in test_IDs[warning]: output.write('{0:s}\n'.format(star))\<close>: the
  format code \<^verbatim>\<open>s\<close> is a ValueError for a float.
\<close>

fun write_stars :: "string \<Rightarrow> 'f cell list \<Rightarrow> error option \<times> event list" where
  "write_stars filename [] = (None, [])"
| "write_stars filename (Str s # stars) =
     (case write_stars filename stars of
        (e, evs) \<Rightarrow> (e, FileWrite filename (s @ [CHR 0x0A]) # evs))"
| "write_stars filename (Num x # stars) = (Some ValueError, [])"

text \<open>\<^verbatim>\<open>sum(warning)\<close>: the number of True entries.\<close>

definition sum_bools :: "bool list \<Rightarrow> nat" where
  "sum_bools bs = length (filter id bs)"

text \<open>One pass of the flagging loop (lines 190 to 199), for the index \<open>i\<close>.\<close>

definition flag_label ::
  "'f float_ops \<Rightarrow> string list \<Rightarrow> 'f cell array2 \<Rightarrow> 'f cell list \<Rightarrow> 'f list \<Rightarrow> 'f list \<Rightarrow>
   nat \<Rightarrow> error option \<times> event list" where
  "flag_label ops names test_labels test_IDs lower upper i =
     (let label_name = names ! i in
      case column test_labels i of
        Inl e \<Rightarrow> (Some e, [])
      | Inr test_cells \<Rightarrow>
          if \<not> (i < length lower \<and> i < length upper) then (Some IndexError, [])
          else
            (case as_float test_labels of
               Inl e \<Rightarrow> (Some e, [])
             | Inr T \<Rightarrow>
                 (let test_vals = map (\<lambda>r. r ! i) (rows T);
                      w = warning ops lower upper i test_vals;
                      filename = ''flagged_stars_'' @ show_nat i @ ''.txt''
                  in case np_bool_index test_IDs w of
                       Inl e \<Rightarrow> (Some e, [FileOpen filename])
                     | Inr stars \<Rightarrow>
                         (case write_stars filename stars of
                            (Some e, ws) \<Rightarrow> (Some e, FileOpen filename # ws)
                          | (None, ws) \<Rightarrow>
                              (None,
                               FileOpen filename # ws @
                               [Print (''Reference label '' @ label_name),
                                Print (''flagged '' @ show_nat (sum_bools w) @
                                       '' stars beyond 2-sig of reference labels''),
                                Print (''Saved list '' @ filename)])))))"

text \<open>\<^verbatim>\<open>for i in range(nlabels)\<close>: the passes in order, stopping at the first exception.\<close>

fun run_loop :: "(nat \<Rightarrow> error option \<times> event list) \<Rightarrow> nat list \<Rightarrow> error option \<times> event list" where
  "run_loop body [] = (None, [])"
| "run_loop body (i # is) =
     (case body i of
        (Some e, evs) \<Rightarrow> (Some e, evs)
      | (None, evs) \<Rightarrow> (case run_loop body is of (e, evs') \<Rightarrow> (e, evs @ evs')))"

text \<open>
  \<^verbatim>\<open>label_triangle_plot\<close>. The function \<^verbatim>\<open>corner\<close> of \<^verbatim>\<open>helpers.triangle\<close> is missing
  and is a parameter that says whether the rendering raises.
\<close>

definition label_triangle_plot ::
  "'f float_ops \<Rightarrow> ('f cell array2 \<Rightarrow> string list \<Rightarrow> error option) \<Rightarrow> 'f dataset \<Rightarrow>
   string option \<Rightarrow> error option \<times> event list" where
  "label_triangle_plot ops corner ds figname =
     (case label_names ds of
        None \<Rightarrow> (Some TypeError, [])
      | Some names \<Rightarrow>
          (case getitems (data ds) names of
             Inl e \<Rightarrow> (Some e, [])
           | Inr cols \<Rightarrow>
               (let d = np_transpose (np_array ops cols) in
                case get_plotting_labels ds of
                  Inl e \<Rightarrow> (Some e, [])
                | Inr None \<Rightarrow> (Some TypeError, [])
                | Inr (Some pl) \<Rightarrow>
                    (let labels = map (\<lambda>l. ''$'' @ l @ ''$'') pl;
                         p = Print ''Plotting every label against every other''
                     in case corner d labels of
                          Some e \<Rightarrow> (Some e, [p])
                        | None \<Rightarrow>
                            (case figname of
                               None \<Rightarrow> (None, [p])
                             | Some f \<Rightarrow> (None, [p, SaveFig f, Print (''Saved fig '' @ f)]))))))"

text \<open>
  One pass of the loop of 1-to-1 plots (lines 206 to 228). Python's \<^verbatim>\<open>min\<close> and \<^verbatim>\<open>max\<close>
  raise ValueError on an empty sequence; \<^verbatim>\<open>np.minimum\<close> raises TypeError on strings.
  The calls into matplotlib keep no state of this module; \<^verbatim>\<open>ax1.scatter(orig, cannon)\<close>
  raises ValueError when its two arguments differ in size, and the pass has no check of
  its own before it.
\<close>

definition py_min :: "'f float_ops \<Rightarrow> 'f list \<Rightarrow> 'f" where
  "py_min ops xs = fold (\<lambda>x m. if np_less ops x m then x else m) (tl xs) (hd xs)"

definition py_max :: "'f float_ops \<Rightarrow> 'f list \<Rightarrow> 'f" where
  "py_max ops xs = fold (\<lambda>x m. if np_less ops m x then x else m) (tl xs) (hd xs)"

definition one_to_one_label ::
  "'f float_ops \<Rightarrow> 'f dataset \<Rightarrow> 'f cell array2 \<Rightarrow> 'f cell array2 \<Rightarrow> nat \<Rightarrow>
   error option \<times> event list" where
  "one_to_one_label ops reference_set reference_labels test_labels i =
     (case get_plotting_labels reference_set of
        Inl e \<Rightarrow> (Some e, [])
      | Inr None \<Rightarrow> (Some TypeError, [])
      | Inr (Some pl) \<Rightarrow>
          if \<not> i < length pl then (Some IndexError, [])
          else
            (let name = pl ! i in
             case column reference_labels i of
               Inl e \<Rightarrow> (Some e, [])
             | Inr orig_cells \<Rightarrow>
                 (case column test_labels i of
                    Inl e \<Rightarrow> (Some e, [])
                  | Inr cannon_cells \<Rightarrow>
                      if orig_cells = [] \<or> cannon_cells = [] then (Some ValueError, [])
                      else
                        (case as_float reference_labels of
                           Inl e \<Rightarrow> (Some e, [])
                         | Inr R \<Rightarrow>
                             (case as_float test_labels of
                                Inl e \<Rightarrow> (Some e, [])
                              | Inr T \<Rightarrow>
                                  (let orig = map (\<lambda>r. r ! i) (rows R);
                                       cannon = map (\<lambda>r. r ! i) (rows T);
                                       low = np_minimum ops (py_min ops orig) (py_min ops cannon);
                                       high = np_maximum ops (py_max ops orig) (py_max ops cannon)
                                   in if length orig \<noteq> length cannon then (Some ValueError, [])
                                      else
                                        (let residual = map2 (np_subtract ops) cannon orig;
                                             figname = ''1to1_label_'' @ show_nat i @ ''.png''
                                         in (None,
                                             [SaveFig figname,
                                              Print ''Diagnostic for label output vs. input'',
                                              Print (''Saved fig '' @ figname)]))))))))"

text \<open>
  \<^verbatim>\<open>dataset_postdiagnostics\<close>: the flagging loop, the triangle plot of the test set
  and the 1-to-1 plots. The result is the exception raised, if any, and the events
  up to it.
\<close>

definition dataset_postdiagnostics ::
  "'f float_ops \<Rightarrow> ('f cell array2 \<Rightarrow> string list \<Rightarrow> error option) \<Rightarrow> 'f dataset \<Rightarrow> 'f dataset \<Rightarrow>
   string \<Rightarrow> error option \<times> event list" where
  "dataset_postdiagnostics ops corner reference_set test_set triangle_plot_name =
     (case label_names reference_set of
        None \<Rightarrow> (Some TypeError, [])
      | Some names \<Rightarrow>
          (let nlabels = length names in
           case label_vals ops reference_set of
             Inl e \<Rightarrow> (Some e, [])
           | Inr reference_labels \<Rightarrow>
               (case label_vals ops test_set of
                  Inl e \<Rightarrow> (Some e, [])
                | Inr test_labels \<Rightarrow>
                    (case IDs test_set of
                       Inl e \<Rightarrow> (Some e, [])
                     | Inr test_IDs \<Rightarrow>
                         (case as_float reference_labels of
                            Inl e \<Rightarrow> (Some e, [])
                          | Inr R \<Rightarrow>
                              (let lower = lower_bounds ops R;
                                   upper = upper_bounds ops R
                               in case run_loop
                                         (flag_label ops names test_labels test_IDs lower upper)
                                         [0..<nlabels] of
                                    (Some e, tr1) \<Rightarrow> (Some e, tr1)
                                  | (None, tr1) \<Rightarrow>
                                      (case label_triangle_plot ops corner test_set
                                              (Some triangle_plot_name) of
                                         (Some e, tr2) \<Rightarrow> (Some e, tr1 @ tr2)
                                       | (None, tr2) \<Rightarrow>
                                           (case run_loop
                                                   (one_to_one_label ops reference_set
                                                      reference_labels test_labels)
                                                   [0..<nlabels] of
                                              (e, tr3) \<Rightarrow> (e, tr1 @ tr2 @ tr3)))))))))"

section \<open>The flagging rule in the words of the specification\<close>

text \<open>
  The specification gives the rule per label column: \<open>mean_i\<close> is the mean of the
  reference column, \<open>std_i\<close> its population standard deviation (\<^verbatim>\<open>ddof = 0\<close>: the sum
  of the squared deviations is divided by the number of values), and a test value is
  flagged when it is strictly below \<open>mean_i - 2 * std_i\<close> or strictly above
  \<open>mean_i + 2 * std_i\<close>. These definitions follow those words, in the same float
  operations; the theorems compare them with what the code computes.
\<close>

definition spec_mean :: "'f float_ops \<Rightarrow> 'f list \<Rightarrow> 'f" where
  "spec_mean ops xs = np_true_divide ops (np_add_reduce ops xs) (np_float ops (length xs))"

definition spec_population_std :: "'f float_ops \<Rightarrow> 'f list \<Rightarrow> 'f" where
  "spec_population_std ops xs =
     np_sqrt ops
       (np_true_divide ops
          (np_add_reduce ops
             (map (\<lambda>x. np_multiply ops (np_subtract ops x (spec_mean ops xs))
                                      (np_subtract ops x (spec_mean ops xs))) xs))
          (np_float ops (length xs)))"

definition spec_lower :: "'f float_ops \<Rightarrow> 'f list \<Rightarrow> 'f" where
  "spec_lower ops ref =
     np_subtract ops (spec_mean ops ref)
       (np_multiply ops (np_float ops 2) (spec_population_std ops ref))"

definition spec_upper :: "'f float_ops \<Rightarrow> 'f list \<Rightarrow> 'f" where
  "spec_upper ops ref =
     np_add ops (spec_mean ops ref)
       (np_multiply ops (np_float ops 2) (spec_population_std ops ref))"

definition spec_flagged :: "'f float_ops \<Rightarrow> 'f list \<Rightarrow> 'f \<Rightarrow> bool" where
  "spec_flagged ops ref v =
     (np_less ops v (spec_lower ops ref) \<or> np_less ops (spec_upper ops ref) v)"

text \<open>
  The output of one flagging pass for a mask \<open>w\<close> over the test stars: the file of
  label \<open>i\<close> is opened, the IDs of the stars whose mask is True are written in row
  order, one per line, and three lines are printed: the label name, the number of
  flagged stars and the file name.
\<close>

definition flagged_ids :: "string list \<Rightarrow> bool list \<Rightarrow> string list" where
  "flagged_ids ids w = map fst (filter snd (zip ids w))"

definition label_events :: "string list \<Rightarrow> string list \<Rightarrow> bool list \<Rightarrow> nat \<Rightarrow> event list" where
  "label_events names ids w i =
     FileOpen (''flagged_stars_'' @ show_nat i @ ''.txt'') #
     map (\<lambda>s. FileWrite (''flagged_stars_'' @ show_nat i @ ''.txt'') (s @ [CHR 0x0A]))
       (flagged_ids ids w) @
     [Print (''Reference label '' @ names ! i),
      Print (''flagged '' @ show_nat (length (flagged_ids ids w)) @
             '' stars beyond 2-sig of reference labels''),
      Print (''Saved list '' @ ''flagged_stars_'' @ show_nat i @ ''.txt'')]"

text \<open>
  The number that a string of decimal digits denotes; \<open>show_nat\<close> is compared with
  it.
\<close>

definition decimal_value :: "string \<Rightarrow> nat" where
  "decimal_value s = foldl (\<lambda>a c. 10 * a + (of_char c - 48)) 0 s"

section \<open>Example data\<close>

text \<open>
  An instance of the float operations for the examples: exact arithmetic on the reals.
  On the values of the examples (small whole numbers) every operation of IEEE double
  arithmetic is exact, so the instance computes what numpy computes there. \<open>example_str\<close>
  is the string of a non-negative whole float, as in \<^verbatim>\<open>str(4.0) == '4.0'\<close>.
\<close>

definition example_str :: "real \<Rightarrow> string" where
  "example_str x = show_nat (nat \<lfloor>x\<rfloor>) @ ''.0''"

definition example_ops :: "real float_ops" where
  "example_ops =
     \<lparr>np_add_reduce = sum_list, np_add = (+), np_subtract = (-), np_multiply = (*),
      np_true_divide = (/), np_sqrt = sqrt, np_minimum = min, np_maximum = max,
      np_float = real, np_less = (<), np_str = example_str\<rparr>"

text \<open>A table of three stars with two labels, and a dataset on it.\<close>

definition example_table :: "real table" where
  "example_table =
     \<lparr>nrows = 3,
      columns = [(''id'', [Str ''s0'', Str ''s1'', Str ''s2'']),
                 (''teff'', [Num 5000, Num 5500, Num 6000]),
                 (''logg'', [Num 4, Num 5, Num 3]),
                 (''SNRs'', [Num 100, Num 80, Num 120])]\<rparr>"

definition example_dataset :: "real dataset" where
  "example_dataset =
     \<lparr>data = example_table, label_names = Some [''logg''],
      lams = [[1, 2], [1, 2], [1, 2]], fluxes = [[10, 11], [20, 21], [30, 31]],
      ivars = [[4, 5], [6, 7], [8, 9]], priv_label_vals = None, label_names_tex = None\<rparr>"

text \<open>
  A reference set of two stars and a test set of three, with the labels \<^verbatim>\<open>logg\<close> (mean
  4 and standard deviation 1 in the reference set) and \<^verbatim>\<open>teff\<close> (mean 6, standard
  deviation 2). On both, \<^verbatim>\<open>set_label_names_tex(None)\<close> has run.
\<close>

definition example_reference :: "real dataset" where
  "example_reference =
     \<lparr>data = \<lparr>nrows = 2,
              columns = [(''id'', [Str ''r0'', Str ''r1'']),
                         (''logg'', [Num 3, Num 5]),
                         (''teff'', [Num 4, Num 8]),
                         (''SNRs'', [Num 50, Num 60])]\<rparr>,
      label_names = Some [''logg'', ''teff''],
      lams = [[1], [1]], fluxes = [[2], [3]], ivars = [[4], [5]],
      priv_label_vals = None, label_names_tex = Some None\<rparr>"

definition example_test :: "real dataset" where
  "example_test =
     \<lparr>data = \<lparr>nrows = 3,
              columns = [(''id'', [Str ''t0'', Str ''t1'', Str ''t2'']),
                         (''logg'', [Num 6, Num 7, Num 1]),
                         (''teff'', [Num 10, Num 11, Num 5]),
                         (''SNRs'', [Num 50, Num 60, Num 70])]\<rparr>,
      label_names = Some [''logg'', ''teff''],
      lams = [[1], [1], [1]], fluxes = [[2], [3], [4]], ivars = [[4], [5], [6]],
      priv_label_vals = None, label_names_tex = Some None\<rparr>"


text \<open>An \<^verbatim>\<open>add_column\<close> that appends the column.\<close>

definition append_column :: "'f table \<Rightarrow> string \<Rightarrow> 'f cell list \<Rightarrow> error + 'f table" where
  "append_column t k c = Inr (t\<lparr>columns := columns t @ [(k, c)]\<rparr>)"

section \<open>Selecting objects\<close>

text \<open>
  C10: \<^verbatim>\<open>choose_objects\<close> never touches \<^verbatim>\<open>lams\<close>: whatever the mask, and whether or not
  the call raises, the wavelength array keeps its value and its row count, and so do the
  label names and the stored label array. For a boolean mask of the length of the
  table, of \<^verbatim>\<open>fluxes\<close> and of \<^verbatim>\<open>ivars\<close>, the call succeeds and exactly the table, \<^verbatim>\<open>fluxes\<close>
  and \<^verbatim>\<open>ivars\<close> are cut down to the rows whose mask is True, in their order.
\<close>

theorem choose_objects_frame:
  "lams (snd (choose_objects table_where msk ds)) = lams ds \<and>
   length (lams (snd (choose_objects table_where msk ds))) = length (lams ds) \<and>
   label_names (snd (choose_objects table_where msk ds)) = label_names ds \<and>
   priv_label_vals (snd (choose_objects table_where msk ds)) = priv_label_vals ds \<and>
   label_names_tex (snd (choose_objects table_where msk ds)) = label_names_tex ds \<and>
   (length b = nrows (data ds) \<and> length (fluxes ds) = nrows (data ds) \<and>
    length (ivars ds) = nrows (data ds) \<longrightarrow>
    choose_objects table_where (MaskArray b) ds =
      (None, ds\<lparr>data := \<lparr>nrows = length (filter id b),
                            columns = map (\<lambda>kc. (fst kc, map fst (filter snd (zip (snd kc) b))))
                                        (columns (data ds))\<rparr>,
                 fluxes := map fst (filter snd (zip (fluxes ds) b)),
                 ivars := map fst (filter snd (zip (ivars ds) b))\<rparr>))"
  by (simp add: choose_objects_def Let_def table_select_def np_bool_index_def split: sum.splits)

theorem choose_objects_frame_witness:
  "length [True, False, True] = nrows (data example_dataset) \<and>
   length (fluxes example_dataset) = nrows (data example_dataset) \<and>
   length (ivars example_dataset) = nrows (data example_dataset) \<and>
   lams (snd (choose_objects (\<lambda>t s. []) (MaskArray [True, False, True]) example_dataset))
     = [[1, 2], [1, 2], [1, 2]] \<and>
   fluxes (snd (choose_objects (\<lambda>t s. []) (MaskArray [True, False, True]) example_dataset))
     = [[10, 11], [30, 31]]"
  using choose_objects_frame [of "\<lambda>t s. []" "MaskArray [True, False, True]" example_dataset
      "[True, False, True]"]
  by (simp add: example_dataset_def example_table_def)

text \<open>
  C1: on the three-star example with the mask \<^verbatim>\<open>[True, False, True]\<close> the call succeeds;
  afterwards the table, \<^verbatim>\<open>fluxes\<close> and \<^verbatim>\<open>ivars\<close> have two rows (rows 0 and 2, in that
  order) and \<^verbatim>\<open>lams\<close> still has its three rows, so the four row counts are not equal.
\<close>

theorem choose_objects_lams_not_masked:
  "fst (choose_objects (\<lambda>t s. []) (MaskArray [True, False, True]) example_dataset) = None \<and>
   nrows (data (snd (choose_objects (\<lambda>t s. []) (MaskArray [True, False, True]) example_dataset))) = 2 \<and>
   columns (data (snd (choose_objects (\<lambda>t s. []) (MaskArray [True, False, True]) example_dataset)))
     = [(''id'', [Str ''s0'', Str ''s2'']), (''teff'', [Num 5000, Num 6000]),
        (''logg'', [Num 4, Num 3]), (''SNRs'', [Num 100, Num 120])] \<and>
   fluxes (snd (choose_objects (\<lambda>t s. []) (MaskArray [True, False, True]) example_dataset))
     = [[10, 11], [30, 31]] \<and>
   ivars (snd (choose_objects (\<lambda>t s. []) (MaskArray [True, False, True]) example_dataset))
     = [[4, 5], [8, 9]] \<and>
   length (lams (snd (choose_objects (\<lambda>t s. []) (MaskArray [True, False, True]) example_dataset))) = 3"
  by (simp add: choose_objects_def example_dataset_def example_table_def table_select_def
      np_bool_index_def Let_def)

section \<open>Selecting labels\<close>

lemma choose_labels_loop_eq:
  "choose_labels_loop ra t cols acc =
     (case dropWhile (\<lambda>k. table_contains t (ra t k)) cols of
        [] \<Rightarrow> None
      | k # _ \<Rightarrow> Some (KeyError (''Attribute '' @ ra t k @ '' not found'')),
      acc @ map (ra t) (takeWhile (\<lambda>k. table_contains t (ra t k)) cols))"
  by (induction cols arbitrary: acc) (simp_all add: Let_def)

text \<open>
  C3, as the code has it: \<^verbatim>\<open>choose_labels\<close> raises a KeyError for the first requested
  name whose resolved key is not a column, with the message naming that key, and raises
  nothing when every name resolves. In both cases \<^verbatim>\<open>label_names\<close> ends as the resolved
  keys of the names before the first failing one (all of them on success): the value it
  had before the call is dropped when the call starts.
\<close>

theorem choose_labels_result:
  "choose_labels ra cols ds =
     (case dropWhile (\<lambda>k. table_contains (data ds) (ra (data ds) k)) cols of
        [] \<Rightarrow> None
      | k # _ \<Rightarrow> Some (KeyError (''Attribute '' @ ra (data ds) k @ '' not found'')),
      ds\<lparr>label_names :=
           Some (map (ra (data ds))
                   (takeWhile (\<lambda>k. table_contains (data ds) (ra (data ds) k)) cols))\<rparr>)"
  by (simp add: choose_labels_def choose_labels_loop_eq)

text \<open>
  C3 as stated fails: with \<^verbatim>\<open>label_names = ["logg"]\<close> and no column \<^verbatim>\<open>feh\<close>,
  \<^verbatim>\<open>choose_labels(["teff", "feh"])\<close> raises the KeyError naming \<^verbatim>\<open>feh\<close> and leaves
  \<^verbatim>\<open>label_names = ["teff"]\<close>, not the value before the call.
\<close>

theorem choose_labels_not_atomic:
  "fst (choose_labels (\<lambda>t k. k) [''teff'', ''feh''] example_dataset)
     = Some (KeyError ''Attribute feh not found'') \<and>
   label_names example_dataset = Some [''logg''] \<and>
   label_names (snd (choose_labels (\<lambda>t k. k) [''teff'', ''feh''] example_dataset))
     = Some [''teff''] \<and>
   label_names (snd (choose_labels (\<lambda>t k. k) [''teff'', ''feh''] example_dataset))
     \<noteq> label_names example_dataset"
  by (simp add: choose_labels_def example_dataset_def example_table_def table_contains_def Let_def)

section \<open>The label matrix\<close>

lemma map_of_wf_length:
  "wf_table t \<Longrightarrow> map_of (columns t) k = Some c \<Longrightarrow> length c = nrows t"
  by (auto simp: wf_table_def list_all_iff dest!: map_of_SomeD)

lemma getitems_all:
  "list_all (table_contains t) names \<Longrightarrow>
   getitems t names = Inr (map (\<lambda>k. the (map_of (columns t) k)) names)"
proof (induction names)
  case Nil
  then show ?case by simp
next
  case (Cons k ks)
  from Cons.prems have "k \<in> fst ` set (columns t)"
    by (simp add: table_contains_def)
  then obtain c where "map_of (columns t) k = Some c"
    by (metis domD dom_map_of_conv_image_fst)
  with Cons show ?case by (simp add: table_getitem_def)
qed

lemma to_str_strings: "list_all is_Str c \<Longrightarrow> map (to_str ops) c = c"
proof (induction c)
  case Nil
  then show ?case by simp
next
  case (Cons a c)
  then show ?case by (cases a) simp_all
qed

lemma column_transpose:
  assumes "j < length cols" and "\<forall>c \<in> set cols. length c = n"
  shows "column (np_transpose (np_array ops cols)) j =
           Inr (if list_ex (list_ex is_Str) cols then map (to_str ops) (cols ! j) else cols ! j)"
proof -
  from assms(1) obtain c0 cs where cols: "cols = c0 # cs" by (cases cols) auto
  with assms(2) have n: "length c0 = n" by simp
  have len: "length (cols ! j) = n" using assms by simp
  have a: "map (\<lambda>r. r ! j) (map (\<lambda>s. map (\<lambda>r. r ! s) cols) [0..<n]) = cols ! j"
  proof -
    have "map (\<lambda>r. r ! j) (map (\<lambda>s. map (\<lambda>r. r ! s) cols) [0..<n]) = map (\<lambda>s. cols ! j ! s) [0..<n]"
      using assms(1) by simp
    also have "\<dots> = cols ! j" using len by (metis map_nth)
    finally show ?thesis .
  qed
  have b: "map (\<lambda>r. r ! j) (map (\<lambda>s. map (\<lambda>r. r ! s) (map (map (to_str ops)) cols)) [0..<n])
             = map (to_str ops) (cols ! j)"
  proof -
    have "map (\<lambda>r. r ! j) (map (\<lambda>s. map (\<lambda>r. r ! s) (map (map (to_str ops)) cols)) [0..<n])
            = map (\<lambda>s. map (to_str ops) (cols ! j) ! s) [0..<n]"
      using assms(1) by simp
    also have "\<dots> = map (to_str ops) (cols ! j)"
      using len by (metis length_map map_nth)
    finally show ?thesis .
  qed
  show ?thesis
    using assms(1) a b by (simp add: column_def np_transpose_def np_array_def cols n)
qed

text \<open>
  C4, as the code has it: \<^verbatim>\<open>label_vals\<close> returns the stored array when
  \<^verbatim>\<open>set_label_vals\<close> stored one. Otherwise, for label names that are all columns of the
  table, it returns an array with one column per label name, in the order of
  \<^verbatim>\<open>label_names\<close>. Column \<open>j\<close> of it is the table column named \<^verbatim>\<open>label_names[j]\<close> when
  no selected column holds a string, and also when every selected column holds only
  strings; when a string column is selected beside float columns, every float of the
  selected columns comes back as its string.
\<close>

theorem label_vals_columns:
  "label_vals ops (ds\<lparr>priv_label_vals := Some M\<rparr>) = Inr M \<and>
   (priv_label_vals ds = None \<and> label_names ds = Some names \<and> wf_table (data ds) \<and>
    list_all (table_contains (data ds)) names \<longrightarrow>
    (\<exists>A. label_vals ops ds = Inr A \<and> shape1 A = length names \<and>
         (names \<noteq> [] \<longrightarrow> shape0 A = nrows (data ds)) \<and>
         (\<forall>j<length names.
            column A j =
              Inr (if list_ex (\<lambda>k. list_ex is_Str (the (map_of (columns (data ds)) k))) names
                   then map (to_str ops) (the (map_of (columns (data ds)) (names ! j)))
                   else the (map_of (columns (data ds)) (names ! j))) \<and>
            (\<not> list_ex (\<lambda>k. list_ex is_Str (the (map_of (columns (data ds)) k))) names \<or>
             list_all (\<lambda>k. list_all is_Str (the (map_of (columns (data ds)) k))) names \<longrightarrow>
             column A j = table_getitem (data ds) (names ! j)))))"
proof (intro conjI impI)
  show "label_vals ops (ds\<lparr>priv_label_vals := Some M\<rparr>) = Inr M"
    by (simp add: label_vals_def)
next
  assume h: "priv_label_vals ds = None \<and> label_names ds = Some names \<and> wf_table (data ds) \<and>
    list_all (table_contains (data ds)) names"
  let ?t = "data ds"
  let ?col = "\<lambda>k. the (map_of (columns ?t) k)"
  let ?cols = "map ?col names"
  let ?A = "np_transpose (np_array ops ?cols)"
  let ?mixed = "list_ex (\<lambda>k. list_ex is_Str (?col k)) names"
  have gi: "getitems ?t names = Inr ?cols" using h by (simp add: getitems_all)
  have lv: "label_vals ops ds = Inr ?A" using h gi by (simp add: label_vals_def)
  have some: "\<And>k. k \<in> set names \<Longrightarrow> \<exists>c. map_of (columns ?t) k = Some c"
  proof -
    fix k assume "k \<in> set names"
    with h have "k \<in> fst ` set (columns ?t)" by (auto simp: table_contains_def list_all_iff)
    then show "\<exists>c. map_of (columns ?t) k = Some c"
      by (metis domD dom_map_of_conv_image_fst)
  qed
  have lens: "\<forall>c \<in> set ?cols. length c = nrows ?t"
  proof
    fix c assume "c \<in> set ?cols"
    then obtain k where k: "k \<in> set names" and c: "c = ?col k" by auto
    from some[OF k] obtain c' where "map_of (columns ?t) k = Some c'" by blast
    with h c show "length c = nrows ?t" using map_of_wf_length by fastforce
  qed
  have mixed: "list_ex (list_ex is_Str) ?cols = ?mixed"
    by (simp add: list_ex_iff)
  have s1: "shape1 ?A = length names" by (simp add: np_transpose_def np_array_def)
  have s0: "names \<noteq> [] \<longrightarrow> shape0 ?A = nrows ?t"
  proof
    assume "names \<noteq> []"
    then obtain k ks where nk: "names = k # ks" by (cases names) auto
    have "length (?col k) = nrows ?t" using lens nk by simp
    then show "shape0 ?A = nrows ?t" by (simp add: shape0_def np_transpose_def np_array_def nk)
  qed
  have cols: "\<forall>j<length names.
            column ?A j = Inr (if ?mixed then map (to_str ops) (?col (names ! j)) else ?col (names ! j)) \<and>
            (\<not> ?mixed \<or> list_all (\<lambda>k. list_all is_Str (?col k)) names \<longrightarrow>
             column ?A j = table_getitem ?t (names ! j))"
  proof (intro allI impI conjI)
    fix j assume j: "j < length names"
    then have "j < length ?cols" by simp
    from column_transpose[OF this lens, of ops]
    show c: "column ?A j = Inr (if ?mixed then map (to_str ops) (?col (names ! j)) else ?col (names ! j))"
      using j by (simp only: mixed nth_map)
    from some[of "names ! j"] j obtain c' where c': "map_of (columns ?t) (names ! j) = Some c'" by auto
    assume d: "\<not> ?mixed \<or> list_all (\<lambda>k. list_all is_Str (?col k)) names"
    have "(if ?mixed then map (to_str ops) (?col (names ! j)) else ?col (names ! j)) = ?col (names ! j)"
    proof (cases ?mixed)
      case False
      then show ?thesis by simp
    next
      case True
      with d have "list_all (\<lambda>k. list_all is_Str (?col k)) names" by simp
      with j have "list_all is_Str (?col (names ! j))" by (simp add: list_all_length)
      then show ?thesis by (simp add: to_str_strings)
    qed
    with c c' show "column ?A j = table_getitem ?t (names ! j)"
      by (simp add: table_getitem_def)
  qed
  show "\<exists>A. label_vals ops ds = Inr A \<and> shape1 A = length names \<and>
         (names \<noteq> [] \<longrightarrow> shape0 A = nrows (data ds)) \<and>
         (\<forall>j<length names.
            column A j =
              Inr (if list_ex (\<lambda>k. list_ex is_Str (the (map_of (columns (data ds)) k))) names
                   then map (to_str ops) (the (map_of (columns (data ds)) (names ! j)))
                   else the (map_of (columns (data ds)) (names ! j))) \<and>
            (\<not> list_ex (\<lambda>k. list_ex is_Str (the (map_of (columns (data ds)) k))) names \<or>
             list_all (\<lambda>k. list_all is_Str (the (map_of (columns (data ds)) k))) names \<longrightarrow>
             column A j = table_getitem (data ds) (names ! j)))"
    using lv s1 s0 cols by blast
qed

theorem label_vals_columns_witness:
  "priv_label_vals (example_dataset\<lparr>label_names := Some [''logg'', ''teff'']\<rparr>) = None \<and>
   wf_table (data (example_dataset\<lparr>label_names := Some [''logg'', ''teff'']\<rparr>)) \<and>
   list_all (table_contains (data (example_dataset\<lparr>label_names := Some [''logg'', ''teff'']\<rparr>)))
     [''logg'', ''teff''] \<and>
   label_vals example_ops (example_dataset\<lparr>label_names := Some [''logg'', ''teff'']\<rparr>)
     = Inr \<lparr>shape1 = 2, rows = [[Num 4, Num 5000], [Num 5, Num 5500], [Num 3, Num 6000]]\<rparr> \<and>
   column \<lparr>shape1 = 2, rows = [[Num 4, Num 5000], [Num 5, Num 5500], [Num 3, Num 6000 :: real cell]]\<rparr> 1
     = Inr [Num 5000, Num 5500, Num 6000]"
  using label_vals_columns [where ds = "example_dataset\<lparr>label_names := Some [''logg'', ''teff'']\<rparr>"
      and names = "[''logg'', ''teff'']" and ops = example_ops]
  by (simp add: example_dataset_def example_table_def wf_table_def table_contains_def
      label_vals_def table_getitem_def np_transpose_def np_array_def column_def)

text \<open>
  C4 as stated fails: with \<^verbatim>\<open>label_names = ["id", "logg"]\<close> on the three-star example,
  column 1 of \<^verbatim>\<open>label_vals\<close> is the strings \<^verbatim>\<open>'4.0'\<close>, \<^verbatim>\<open>'5.0'\<close>, \<^verbatim>\<open>'3.0'\<close>, not the table
  column \<^verbatim>\<open>logg\<close> with the floats 4, 5 and 3.
\<close>

theorem label_vals_mixed_columns_cast:
  "label_vals example_ops (example_dataset\<lparr>label_names := Some [''id'', ''logg'']\<rparr>)
     = Inr \<lparr>shape1 = 2,
            rows = [[Str ''s0'', Str ''4.0''], [Str ''s1'', Str ''5.0''], [Str ''s2'', Str ''3.0'']]\<rparr> \<and>
   column \<lparr>shape1 = 2,
           rows = [[Str ''s0'', Str ''4.0''], [Str ''s1'', Str ''5.0''],
                   [Str ''s2'', Str ''3.0'' :: real cell]]\<rparr> 1
     = Inr [Str ''4.0'', Str ''5.0'', Str ''3.0''] \<and>
   table_getitem (data (example_dataset\<lparr>label_names := Some [''id'', ''logg'']\<rparr>)) ''logg''
     = Inr [Num 4, Num 5, Num 3] \<and>
   column \<lparr>shape1 = 2,
           rows = [[Str ''s0'', Str ''4.0''], [Str ''s1'', Str ''5.0''],
                   [Str ''s2'', Str ''3.0'' :: real cell]]\<rparr> 1
     \<noteq> table_getitem (data (example_dataset\<lparr>label_names := Some [''id'', ''logg'']\<rparr>)) ''logg''"
  by (simp add: example_dataset_def example_table_def label_vals_def table_getitem_def
      np_transpose_def np_array_def column_def example_ops_def example_str_def
      show_nat.simps digit_char_def upt_conv_Cons)

text \<open>
  C9: after \<^verbatim>\<open>set_label_vals(M)\<close> the property \<^verbatim>\<open>label_vals\<close> is \<open>M\<close>, whatever the table
  and the label names are; after \<^verbatim>\<open>reset_label_vals\<close> it is derived from the table
  again, and the stored array is forgotten; a dataset that the constructor built has
  no stored array.
\<close>

theorem label_vals_set_get:
  "label_vals ops (set_label_vals M ds) = Inr M \<and>
   label_vals ops (reset_label_vals (set_label_vals M ds)) = label_vals ops (reset_label_vals ds) \<and>
   label_vals ops (reset_label_vals ds) =
     (case label_names ds of
        None \<Rightarrow> Inl TypeError
      | Some names \<Rightarrow>
          (case getitems (data ds) names of
             Inl e \<Rightarrow> Inl e
           | Inr cols \<Rightarrow> Inr (np_transpose (np_array ops cols)))) \<and>
   (Dataset_init add_column t snrs l f v names0 tex0 = Inr ds' \<longrightarrow>
      priv_label_vals ds' = None \<and> label_vals ops ds' = label_vals ops (reset_label_vals ds'))"
  by (auto simp: label_vals_def set_label_vals_def reset_label_vals_def Dataset_init_def
      split: sum.splits option.splits)

theorem label_vals_set_get_witness:
  "Dataset_init append_column \<lparr>nrows = 1, columns = [(''id'', [Str ''s0'']), (''logg'', [Num 4])]\<rparr>
     [Num 100] [[1]] [[2]] [[3]] (Some [''logg'']) None
     = Inr \<lparr>data = \<lparr>nrows = 1, columns = [(''id'', [Str ''s0'']), (''logg'', [Num 4]), (''SNRs'', [Num 100])]\<rparr>,
            label_names = Some [''logg''], lams = [[1]], fluxes = [[2]], ivars = [[3]],
            priv_label_vals = None, label_names_tex = None\<rparr> \<and>
   label_vals example_ops
     \<lparr>data = \<lparr>nrows = 1, columns = [(''id'', [Str ''s0'']), (''logg'', [Num 4]), (''SNRs'', [Num 100])]\<rparr>,
            label_names = Some [''logg''], lams = [[1]], fluxes = [[2]], ivars = [[3]],
            priv_label_vals = None, label_names_tex = None\<rparr>
     = Inr \<lparr>shape1 = 1, rows = [[Num 4]]\<rparr>"
  using label_vals_set_get [where add_column = append_column
      and t = "\<lparr>nrows = 1, columns = [(''id'', [Str ''s0'']), (''logg'', [Num 4 :: real cell])]\<rparr>"
      and snrs = "[Num 100]" and l = "[[1]]" and f = "[[2]]" and v = "[[3]]"
      and ?names0.0 = "Some [''logg'']" and ?tex0.0 = None and ops = example_ops]
  by (simp add: Dataset_init_def append_column_def reset_label_vals_def label_vals_def
      table_getitem_def np_transpose_def np_array_def)

section \<open>Flagging the outliers\<close>

lemma np_mean_spec: "np_mean ops xs = spec_mean ops xs"
  by (simp add: np_mean_def spec_mean_def)

lemma np_std_spec: "np_std ops 0 xs = spec_population_std ops xs"
  by (simp add: np_std_def np_mean_def spec_mean_def spec_population_std_def Let_def comp_def)

lemma length_bounds [simp]:
  "length (lower_bounds ops A) = shape1 A" "length (upper_bounds ops A) = shape1 A"
  by (simp_all add: lower_bounds_def upper_bounds_def np_mean0_def np_std0_def)

lemma lower_bounds_nth:
  "i < shape1 A \<Longrightarrow> lower_bounds ops A ! i = spec_lower ops (map (\<lambda>r. r ! i) (rows A))"
  by (simp add: lower_bounds_def np_mean0_def np_std0_def np_mean_spec np_std_spec spec_lower_def)

lemma upper_bounds_nth:
  "i < shape1 A \<Longrightarrow> upper_bounds ops A ! i = spec_upper ops (map (\<lambda>r. r ! i) (rows A))"
  by (simp add: upper_bounds_def np_mean0_def np_std0_def np_mean_spec np_std_spec spec_upper_def)

lemma warning_spec:
  assumes "i < shape1 R"
  shows "warning ops (lower_bounds ops R) (upper_bounds ops R) i vs =
           map (spec_flagged ops (map (\<lambda>r. r ! i) (rows R))) vs"
  by (simp add: warning_def lower_bounds_nth[OF assms] upper_bounds_nth[OF assms] spec_flagged_def)

lemma write_stars_strs:
  "write_stars f (map Str xs) = (None, map (\<lambda>s. FileWrite f (s @ [CHR 0x0A])) xs)"
  by (induction xs) simp_all

lemma bool_index_strs:
  "length w = length ids \<Longrightarrow>
   np_bool_index (map Str ids) w = Inr (map Str (flagged_ids ids w))"
proof -
  assume len: "length w = length ids"
  have "map fst (filter snd (zip (map Str ids) w)) = map Str (map fst (filter snd (zip ids w)))"
    using len
  proof (induction ids arbitrary: w)
    case Nil then show ?case by simp
  next
    case (Cons a ids)
    then obtain b w' where "w = b # w'" by (cases w) auto
    with Cons show ?case by simp
  qed
  then show ?thesis using len by (simp add: np_bool_index_def flagged_ids_def)
qed

lemma sum_bools_flagged:
  "length w = length ids \<Longrightarrow> sum_bools w = length (flagged_ids ids w)"
proof (induction ids arbitrary: w)
  case Nil then show ?case by (simp add: sum_bools_def flagged_ids_def)
next
  case (Cons a ids)
  then obtain b w' where w: "w = b # w'" by (cases w) auto
  with Cons.prems have "length w' = length ids" by simp
  from Cons.IH[OF this] show ?case by (simp add: w sum_bools_def flagged_ids_def)
qed

lemma flagged_ids_by_index:
  assumes "length w = length ids"
  shows "flagged_ids ids w = map ((!) ids) (filter ((!) w) [0..<length ids])"
proof -
  have z: "zip ids w = map (\<lambda>i. (ids ! i, w ! i)) [0..<length ids]"
    using assms by (intro nth_equalityI) simp_all
  show ?thesis
    unfolding flagged_ids_def z by (simp add: filter_map comp_def)
qed

lemma as_float_length:
  "as_float A = Inr T \<Longrightarrow> length (rows T) = length (rows A) \<and> shape1 T = shape1 A"
proof -
  have those_len: "\<And>(xs :: 'b option list) ys. those xs = Some ys \<Longrightarrow> length ys = length xs"
  proof -
    fix xs :: "'b option list" and ys
    show "those xs = Some ys \<Longrightarrow> length ys = length xs"
      by (induction xs arbitrary: ys) (auto split: option.splits)
  qed
  assume "as_float A = Inr T"
  then show ?thesis
    by (auto simp: as_float_def split: option.splits dest!: those_len)
qed

lemma flag_label_ok:
  assumes "i < shape1 Tc" and "as_float Tc = Inr T" and "i < length lower" and "i < length upper"
    and "length ids = length (rows Tc)"
  shows "flag_label ops names Tc (map Str ids) lower upper i =
           (None, label_events names ids (warning ops lower upper i (map (\<lambda>r. r ! i) (rows T))) i)"
proof -
  let ?w = "warning ops lower upper i (map (\<lambda>r. r ! i) (rows T))"
  have lw: "length ?w = length ids"
    using as_float_length[OF assms(2)] assms(5) by (simp add: warning_def)
  show ?thesis
    using assms(1,3,4)
    by (simp add: flag_label_def column_def assms(2) Let_def bool_index_strs[OF lw]
        write_stars_strs sum_bools_flagged[OF lw] label_events_def)
qed

lemma run_loop_ok:
  "(\<And>i. i \<in> set is \<Longrightarrow> body i = (None, evs i)) \<Longrightarrow>
   run_loop body is = (None, concat (map evs is))"
  by (induction "is") simp_all

lemma postdiagnostics_flag_prefix:
  assumes "label_names reference_set = Some names"
    and "label_vals ops reference_set = Inr Rc" and "as_float Rc = Inr R"
    and "label_vals ops test_set = Inr Tc" and "as_float Tc = Inr T"
    and "IDs test_set = Inr (map Str ids)" and "length ids = shape0 Tc"
    and "length names \<le> shape1 Rc" and "length names \<le> shape1 Tc"
  shows "\<exists>e rest. dataset_postdiagnostics ops corner reference_set test_set plot_name =
           (e, concat (map (\<lambda>i. label_events names ids
                                  (warning ops (lower_bounds ops R) (upper_bounds ops R) i
                                     (map (\<lambda>r. r ! i) (rows T))) i)
                         [0..<length names]) @ rest)"
proof -
  let ?evs = "\<lambda>i. label_events names ids
                 (warning ops (lower_bounds ops R) (upper_bounds ops R) i (map (\<lambda>r. r ! i) (rows T))) i"
  have sR: "shape1 R = shape1 Rc" using as_float_length[OF assms(3)] by simp
  have loop: "run_loop (flag_label ops names Tc (map Str ids) (lower_bounds ops R) (upper_bounds ops R))
                [0..<length names] = (None, concat (map ?evs [0..<length names]))"
  proof (rule run_loop_ok)
    fix i assume "i \<in> set [0..<length names]"
    then have i: "i < length names" by simp
    show "flag_label ops names Tc (map Str ids) (lower_bounds ops R) (upper_bounds ops R) i = (None, ?evs i)"
      using i assms(7,8,9) sR
      by (intro flag_label_ok[OF _ assms(5)]) (simp_all add: shape0_def)
  qed
  show ?thesis
    unfolding dataset_postdiagnostics_def
    by (auto simp: assms(1,2,3,4,6) loop Let_def split: prod.splits option.splits)
qed

text \<open>The decimal digits of \<open>show_nat\<close>: they denote the number, and there is no leading
  zero.\<close>

lemma digit_char_val: "d < 10 \<Longrightarrow> of_char (digit_char d) - 48 = d"
proof -
  assume "d < 10"
  then have "d \<in> {0, 1, 2, 3, 4, 5, 6, 7, 8, 9}" by auto
  then show ?thesis by (auto simp: digit_char_def)
qed

lemma digit_char_digit: "d < 10 \<Longrightarrow> digit_char d \<in> set ''0123456789''"
proof -
  assume "d < 10"
  then have "d \<in> {0, 1, 2, 3, 4, 5, 6, 7, 8, 9}" by auto
  then show ?thesis by (auto simp: digit_char_def)
qed

lemma digit_char_zero: "d < 10 \<Longrightarrow> digit_char d = CHR ''0'' \<Longrightarrow> d = 0"
proof -
  assume "d < 10" and z: "digit_char d = CHR ''0''"
  then have "d \<in> {0, 1, 2, 3, 4, 5, 6, 7, 8, 9}" by auto
  with z show ?thesis by (auto simp: digit_char_def)
qed

lemma decimal_value_snoc: "decimal_value (s @ [c]) = 10 * decimal_value s + (of_char c - 48)"
  by (simp add: decimal_value_def)

lemma show_nat_value: "decimal_value (show_nat n) = n"
proof (induction n rule: show_nat.induct)
  case (1 n)
  show ?case
  proof (cases "n < 10")
    case True
    then show ?thesis
      by (simp add: show_nat.simps[of n] decimal_value_def digit_char_val)
  next
    case False
    with "1" have "decimal_value (show_nat (n div 10)) = n div 10" by simp
    with False show ?thesis
      by (simp add: show_nat.simps[of n] decimal_value_snoc digit_char_val)
  qed
qed

lemma show_nat_digits: "set (show_nat n) \<subseteq> set ''0123456789''"
proof (induction n rule: show_nat.induct)
  case (1 n)
  show ?case
  proof (cases "n < 10")
    case True
    then show ?thesis using digit_char_digit[of n] by (simp add: show_nat.simps[of n])
  next
    case False
    with "1" have "set (show_nat (n div 10)) \<subseteq> set ''0123456789''" by simp
    with False show ?thesis
      using digit_char_digit[of "n mod 10"] by (simp add: show_nat.simps[of n])
  qed
qed

lemma show_nat_nonempty: "show_nat n \<noteq> []"
  by (simp add: show_nat.simps[of n])

lemma show_nat_no_leading_zero: "0 < n \<Longrightarrow> hd (show_nat n) \<noteq> CHR ''0''"
proof (induction n rule: show_nat.induct)
  case (1 n)
  show ?case
  proof (cases "n < 10")
    case True
    with "1.prems" show ?thesis
      using digit_char_zero[of n] by (auto simp: show_nat.simps[of n])
  next
    case False
    then have "0 < n div 10" by simp
    with "1.IH" False have "hd (show_nat (n div 10)) \<noteq> CHR ''0''" by simp
    with False show ?thesis
      by (simp add: show_nat.simps[of n] show_nat_nonempty)
  qed
qed

text \<open>The example run: the flagging loop and the triangle plot pass, the first 1-to-1
  plot raises.\<close>

lemma ex_ref_names: "label_names example_reference = Some [''logg'', ''teff'']"
  by (simp add: example_reference_def)

lemma ex_ref_vals:
  "label_vals example_ops example_reference = Inr \<lparr>shape1 = 2, rows = [[Num 3, Num 4], [Num 5, Num 8 :: real cell]]\<rparr>"
  by (simp add: label_vals_def example_reference_def table_getitem_def np_transpose_def np_array_def)

lemma ex_test_vals:
  "label_vals example_ops example_test = Inr \<lparr>shape1 = 2, rows = [[Num 6, Num 10], [Num 7, Num 11], [Num 1, Num 5 :: real cell]]\<rparr>"
  by (simp add: label_vals_def example_test_def table_getitem_def np_transpose_def np_array_def
      upt_rec[of 0 3] upt_rec[of 1 3] upt_rec[of 2 3])

lemma ex_ids: "IDs example_test = Inr (map Str [''t0'', ''t1'', ''t2''])"
  by (simp add: IDs_def example_test_def table_getitem_def)

lemma ex_float_ref:
  "as_float \<lparr>shape1 = 2, rows = [[Num 3, Num 4], [Num 5, Num 8 :: real cell]]\<rparr>
     = Inr \<lparr>shape1 = 2, rows = [[3, 4], [5, 8 :: real]]\<rparr>"
  by (simp add: as_float_def)

lemma ex_float_test:
  "as_float \<lparr>shape1 = 2, rows = [[Num 6, Num 10], [Num 7, Num 11], [Num 1, Num 5 :: real cell]]\<rparr>
     = Inr \<lparr>shape1 = 2, rows = [[6, 10], [7, 11], [1, 5 :: real]]\<rparr>"
  by (simp add: as_float_def)

lemma ex_bounds:
  "lower_bounds example_ops \<lparr>shape1 = 2, rows = [[3, 4], [5, 8 :: real]]\<rparr> = [2, 2]"
  "upper_bounds example_ops \<lparr>shape1 = 2, rows = [[3, 4], [5, 8 :: real]]\<rparr> = [6, 10]"
  by (simp_all add: lower_bounds_def upper_bounds_def np_mean0_def np_std0_def np_mean_def np_std_def Let_def
      example_ops_def upt_conv_Cons)

lemma ex_flag_loop:
  "run_loop (flag_label example_ops [''logg'', ''teff'']
               \<lparr>shape1 = 2, rows = [[Num 6, Num 10], [Num 7, Num 11], [Num 1, Num 5 :: real cell]]\<rparr>
               (map Str [''t0'', ''t1'', ''t2'']) [2, 2] [6, 10]) [0..<2]
   = (None,
      [FileOpen ''flagged_stars_0.txt'',
       FileWrite ''flagged_stars_0.txt'' (''t1'' @ [CHR 0x0A]),
       FileWrite ''flagged_stars_0.txt'' (''t2'' @ [CHR 0x0A]),
       Print ''Reference label logg'',
       Print ''flagged 2 stars beyond 2-sig of reference labels'',
       Print ''Saved list flagged_stars_0.txt'',
       FileOpen ''flagged_stars_1.txt'',
       FileWrite ''flagged_stars_1.txt'' (''t1'' @ [CHR 0x0A]),
       Print ''Reference label teff'',
       Print ''flagged 1 stars beyond 2-sig of reference labels'',
       Print ''Saved list flagged_stars_1.txt''])"
  by (simp add: upt_conv_Cons flag_label_def column_def ex_float_test Let_def warning_def
      example_ops_def np_bool_index_def show_nat.simps digit_char_def sum_bools_def)

lemma ex_triangle:
  "label_triangle_plot example_ops (\<lambda>d l. None) example_test (Some ''survey_labels_triangle.png'')
   = (None, [Print ''Plotting every label against every other'',
             SaveFig ''survey_labels_triangle.png'',
             Print ''Saved fig survey_labels_triangle.png''])"
  by (simp add: label_triangle_plot_def example_test_def table_getitem_def get_plotting_labels_def)

lemma ex_one_to_one:
  "run_loop (one_to_one_label example_ops example_reference
               \<lparr>shape1 = 2, rows = [[Num 3, Num 4], [Num 5, Num 8 :: real cell]]\<rparr>
               \<lparr>shape1 = 2, rows = [[Num 6, Num 10], [Num 7, Num 11], [Num 1, Num 5 :: real cell]]\<rparr>) [0..<2]
   = (Some ValueError, [])"
  by (simp add: upt_conv_Cons one_to_one_label_def example_reference_def get_plotting_labels_def
      column_def ex_float_ref ex_float_test Let_def)

lemma ex_run:
  "dataset_postdiagnostics example_ops (\<lambda>d l. None) example_reference example_test ''survey_labels_triangle.png''
   = (Some ValueError,
      [FileOpen ''flagged_stars_0.txt'',
       FileWrite ''flagged_stars_0.txt'' (''t1'' @ [CHR 0x0A]),
       FileWrite ''flagged_stars_0.txt'' (''t2'' @ [CHR 0x0A]),
       Print ''Reference label logg'',
       Print ''flagged 2 stars beyond 2-sig of reference labels'',
       Print ''Saved list flagged_stars_0.txt'',
       FileOpen ''flagged_stars_1.txt'',
       FileWrite ''flagged_stars_1.txt'' (''t1'' @ [CHR 0x0A]),
       Print ''Reference label teff'',
       Print ''flagged 1 stars beyond 2-sig of reference labels'',
       Print ''Saved list flagged_stars_1.txt'',
       Print ''Plotting every label against every other'',
       SaveFig ''survey_labels_triangle.png'',
       Print ''Saved fig survey_labels_triangle.png''])"
proof -
  have n: "label_names example_reference = Some [''logg'', ''teff'']"
    by (simp add: example_reference_def)
  have l2: "length [''logg'', ''teff''] = 2" by simp
  show ?thesis
    unfolding dataset_postdiagnostics_def n
    by (simp only: option.case Let_def ex_ref_vals ex_test_vals sum.case ex_ids ex_float_ref
        ex_bounds l2 ex_flag_loop ex_triangle ex_one_to_one prod.case append.simps)
qed

text \<open>
  C2: for a reference set and a test set whose label arrays have a column for every
  label name, the files that \<^verbatim>\<open>dataset_postdiagnostics\<close> writes list, for every label
  \<open>i\<close>, the test stars that the rule of the specification flags: those whose value in
  column \<open>i\<close> is strictly below \<open>mean_i - 2 * std_i\<close> or strictly above
  \<open>mean_i + 2 * std_i\<close>. The mean and the standard deviation that the code computes for
  reference column \<open>i\<close> are the mean and the population standard deviation (the divisor
  is the number of values). A value equal to either bound is not flagged, the comparison
  being irreflexive and the lower bound not above the upper one, as with IEEE floats.
\<close>

theorem flagged_iff_outside_two_sigma:
  assumes "label_names reference_set = Some names"
    and "label_vals ops reference_set = Inr Rc" and "as_float Rc = Inr R"
    and "label_vals ops test_set = Inr Tc" and "as_float Tc = Inr T"
    and "IDs test_set = Inr (map Str ids)" and "length ids = shape0 Tc"
    and "length names \<le> shape1 Rc" and "length names \<le> shape1 Tc"
  shows "(\<exists>e rest. dataset_postdiagnostics ops corner reference_set test_set plot_name =
           (e, concat (map (\<lambda>i. label_events names ids
                                  (map (spec_flagged ops (map (\<lambda>r. r ! i) (rows R)))
                                     (map (\<lambda>r. r ! i) (rows T))) i)
                         [0..<length names]) @ rest)) \<and>
         (\<forall>i. i < length names \<longrightarrow>
            np_mean0 ops R ! i = spec_mean ops (map (\<lambda>r. r ! i) (rows R)) \<and>
            np_std0 ops R ! i = spec_population_std ops (map (\<lambda>r. r ! i) (rows R))) \<and>
         (\<forall>i v. i < length names \<longrightarrow>
            warning ops (lower_bounds ops R) (upper_bounds ops R) i [v] =
              [np_less ops v
                 (np_subtract ops (spec_mean ops (map (\<lambda>r. r ! i) (rows R)))
                    (np_multiply ops (np_float ops 2)
                       (spec_population_std ops (map (\<lambda>r. r ! i) (rows R))))) \<or>
               np_less ops
                 (np_add ops (spec_mean ops (map (\<lambda>r. r ! i) (rows R)))
                    (np_multiply ops (np_float ops 2)
                       (spec_population_std ops (map (\<lambda>r. r ! i) (rows R))))) v]) \<and>
         (\<forall>i. i < length names \<and> (\<forall>x. \<not> np_less ops x x) \<and>
              \<not> np_less ops (spec_upper ops (map (\<lambda>r. r ! i) (rows R)))
                           (spec_lower ops (map (\<lambda>r. r ! i) (rows R))) \<longrightarrow>
            warning ops (lower_bounds ops R) (upper_bounds ops R) i
              [spec_lower ops (map (\<lambda>r. r ! i) (rows R)),
               spec_upper ops (map (\<lambda>r. r ! i) (rows R))] = [False, False])"
proof (intro conjI allI impI)
  have sR: "shape1 R = shape1 Rc"
    using as_float_length[OF assms(3)] by simp
  have eq: "map (\<lambda>i. label_events names ids
                         (warning ops (lower_bounds ops R) (upper_bounds ops R) i
                            (map (\<lambda>r. r ! i) (rows T))) i)
                [0..<length names]
            = map (\<lambda>i. label_events names ids
                         (map (spec_flagged ops (map (\<lambda>r. r ! i) (rows R)))
                            (map (\<lambda>r. r ! i) (rows T))) i)
                [0..<length names]"
  proof (rule map_cong[OF refl])
    fix i assume "i \<in> set [0..<length names]"
    then have "i < shape1 R" using assms(8) sR by simp
    from warning_spec[OF this]
    show "label_events names ids
            (warning ops (lower_bounds ops R) (upper_bounds ops R) i (map (\<lambda>r. r ! i) (rows T))) i
          = label_events names ids
              (map (spec_flagged ops (map (\<lambda>r. r ! i) (rows R))) (map (\<lambda>r. r ! i) (rows T))) i"
      by simp
  qed
  from postdiagnostics_flag_prefix[OF assms(1-9), of corner plot_name]
  show "\<exists>e rest. dataset_postdiagnostics ops corner reference_set test_set plot_name =
           (e, concat (map (\<lambda>i. label_events names ids
                                  (map (spec_flagged ops (map (\<lambda>r. r ! i) (rows R)))
                                     (map (\<lambda>r. r ! i) (rows T))) i)
                         [0..<length names]) @ rest)"
    unfolding eq .
next
  have sR: "shape1 R = shape1 Rc"
    using as_float_length[OF assms(3)] by simp
  fix i assume "i < length names"
  then have i: "i < shape1 R" using assms(8) sR by simp
  show "np_mean0 ops R ! i = spec_mean ops (map (\<lambda>r. r ! i) (rows R))"
    using i by (simp add: np_mean0_def np_mean_spec)
  show "np_std0 ops R ! i = spec_population_std ops (map (\<lambda>r. r ! i) (rows R))"
    using i by (simp add: np_std0_def np_std_spec)
next
  have sR: "shape1 R = shape1 Rc"
    using as_float_length[OF assms(3)] by simp
  fix i v assume "i < length names"
  then have "i < shape1 R" using assms(8) sR by simp
  from warning_spec[OF this, of ops "[v]"]
  show "warning ops (lower_bounds ops R) (upper_bounds ops R) i [v] =
              [np_less ops v
                 (np_subtract ops (spec_mean ops (map (\<lambda>r. r ! i) (rows R)))
                    (np_multiply ops (np_float ops 2)
                       (spec_population_std ops (map (\<lambda>r. r ! i) (rows R))))) \<or>
               np_less ops
                 (np_add ops (spec_mean ops (map (\<lambda>r. r ! i) (rows R)))
                    (np_multiply ops (np_float ops 2)
                       (spec_population_std ops (map (\<lambda>r. r ! i) (rows R))))) v]"
    by (simp add: spec_flagged_def spec_lower_def spec_upper_def)
next
  have sR: "shape1 R = shape1 Rc"
    using as_float_length[OF assms(3)] by simp
  fix i
  assume h: "i < length names \<and> (\<forall>x. \<not> np_less ops x x) \<and>
              \<not> np_less ops (spec_upper ops (map (\<lambda>r. r ! i) (rows R)))
                           (spec_lower ops (map (\<lambda>r. r ! i) (rows R)))"
  then have "i < shape1 R" using assms(8) sR by simp
  from warning_spec[OF this, of ops]
  show "warning ops (lower_bounds ops R) (upper_bounds ops R) i
              [spec_lower ops (map (\<lambda>r. r ! i) (rows R)),
               spec_upper ops (map (\<lambda>r. r ! i) (rows R))] = [False, False]"
    using h by (simp add: spec_flagged_def)
qed

theorem flagged_iff_outside_two_sigma_witness:
  "label_names example_reference = Some [''logg'', ''teff''] \<and>
   label_vals example_ops example_reference
     = Inr \<lparr>shape1 = 2, rows = [[Num 3, Num 4], [Num 5, Num 8]]\<rparr> \<and>
   as_float \<lparr>shape1 = 2, rows = [[Num 3, Num 4], [Num 5, Num 8 :: real cell]]\<rparr>
     = Inr \<lparr>shape1 = 2, rows = [[3, 4], [5, 8]]\<rparr> \<and>
   label_vals example_ops example_test
     = Inr \<lparr>shape1 = 2, rows = [[Num 6, Num 10], [Num 7, Num 11], [Num 1, Num 5]]\<rparr> \<and>
   as_float \<lparr>shape1 = 2, rows = [[Num 6, Num 10], [Num 7, Num 11], [Num 1, Num 5 :: real cell]]\<rparr>
     = Inr \<lparr>shape1 = 2, rows = [[6, 10], [7, 11], [1, 5]]\<rparr> \<and>
   IDs example_test = Inr (map Str [''t0'', ''t1'', ''t2'']) \<and>
   spec_mean example_ops [3, 5] = 4 \<and> spec_population_std example_ops [3, 5] = 1 \<and>
   spec_lower example_ops [3, 5] = 2 \<and> spec_upper example_ops [3, 5] = 6 \<and>
   np_mean0 example_ops \<lparr>shape1 = 2, rows = [[3, 4], [5, 8 :: real]]\<rparr> ! 0 = 4 \<and> np_std0 example_ops \<lparr>shape1 = 2, rows = [[3, 4], [5, 8 :: real]]\<rparr> ! 0 = 1 \<and>
   warning example_ops (lower_bounds example_ops \<lparr>shape1 = 2, rows = [[3, 4], [5, 8 :: real]]\<rparr>) (upper_bounds example_ops \<lparr>shape1 = 2, rows = [[3, 4], [5, 8 :: real]]\<rparr>) 0 [7] = [True] \<and>
   warning example_ops (lower_bounds example_ops \<lparr>shape1 = 2, rows = [[3, 4], [5, 8 :: real]]\<rparr>) (upper_bounds example_ops \<lparr>shape1 = 2, rows = [[3, 4], [5, 8 :: real]]\<rparr>) 0 [2, 6]
     = [False, False] \<and>
   (\<exists>e rest. dataset_postdiagnostics example_ops (\<lambda>d l. None) example_reference example_test
                ''survey_labels_triangle.png'' =
      (e, [FileOpen ''flagged_stars_0.txt'',
           FileWrite ''flagged_stars_0.txt'' (''t1'' @ [CHR 0x0A]),
           FileWrite ''flagged_stars_0.txt'' (''t2'' @ [CHR 0x0A]),
           Print ''Reference label logg'',
           Print ''flagged 2 stars beyond 2-sig of reference labels'',
           Print ''Saved list flagged_stars_0.txt'',
           FileOpen ''flagged_stars_1.txt'',
           FileWrite ''flagged_stars_1.txt'' (''t1'' @ [CHR 0x0A]),
           Print ''Reference label teff'',
           Print ''flagged 1 stars beyond 2-sig of reference labels'',
           Print ''Saved list flagged_stars_1.txt''] @ rest))"
proof -
  have m: "spec_mean example_ops [3, 5] = 4" by (simp add: spec_mean_def example_ops_def)
  have s: "spec_population_std example_ops [3, 5] = 1"
    by (simp add: spec_population_std_def spec_mean_def example_ops_def)
  have lo: "spec_lower example_ops [3, 5] = 2"
    by (simp add: spec_lower_def m s) (simp add: example_ops_def)
  have up: "spec_upper example_ops [3, 5] = 6"
    by (simp add: spec_upper_def m s) (simp add: example_ops_def)
  have m1: "spec_mean example_ops [4, 8] = 6" by (simp add: spec_mean_def example_ops_def)
  have s1: "spec_population_std example_ops [4, 8] = 2"
    by (simp add: spec_population_std_def spec_mean_def example_ops_def)
  have lo1: "spec_lower example_ops [4, 8] = 2"
    by (simp add: spec_lower_def m1 s1) (simp add: example_ops_def)
  have up1: "spec_upper example_ops [4, 8] = 10"
    by (simp add: spec_upper_def m1 s1) (simp add: example_ops_def)
  have irr: "\<forall>x. \<not> np_less example_ops x x" by (simp add: example_ops_def)
  have ord: "\<not> np_less example_ops (spec_upper example_ops [3, 5]) (spec_lower example_ops [3, 5])"
    by (simp add: lo up) (simp add: example_ops_def)
  have h7: "length [''t0'', ''t1'', ''t2'']
              = shape0 \<lparr>shape1 = 2, rows = [[Num 6, Num 10], [Num 7, Num 11], [Num 1, Num 5 :: real cell]]\<rparr>"
    by (simp add: shape0_def)
  have h8: "length [''logg'', ''teff'']
              \<le> shape1 \<lparr>shape1 = 2, rows = [[Num 3, Num 4], [Num 5, Num 8 :: real cell]]\<rparr>" by simp
  have h9: "length [''logg'', ''teff'']
              \<le> shape1 \<lparr>shape1 = 2, rows = [[Num 6, Num 10], [Num 7, Num 11], [Num 1, Num 5 :: real cell]]\<rparr>"
    by simp
  note t = flagged_iff_outside_two_sigma [OF ex_ref_names ex_ref_vals ex_float_ref ex_test_vals
      ex_float_test ex_ids h7 h8 h9, of "\<lambda>d l. None" "''survey_labels_triangle.png''"]
  note c2 = t[THEN conjunct2, THEN conjunct1, rule_format, of 0]
  from c2 have ms: "np_mean0 example_ops \<lparr>shape1 = 2, rows = [[3, 4], [5, 8 :: real]]\<rparr> ! 0 = 4 \<and> np_std0 example_ops \<lparr>shape1 = 2, rows = [[3, 4], [5, 8 :: real]]\<rparr> ! 0 = 1"
    by (simp add: m s)
  note c3 = t[THEN conjunct2, THEN conjunct2, THEN conjunct1, rule_format, of 0 7]
  from c3 have "warning example_ops (lower_bounds example_ops \<lparr>shape1 = 2, rows = [[3, 4], [5, 8 :: real]]\<rparr>) (upper_bounds example_ops \<lparr>shape1 = 2, rows = [[3, 4], [5, 8 :: real]]\<rparr>) 0 [7]
      = [np_less example_ops 7
           (np_subtract example_ops (spec_mean example_ops [3, 5])
              (np_multiply example_ops (np_float example_ops 2)
                 (spec_population_std example_ops [3, 5]))) \<or>
         np_less example_ops
           (np_add example_ops (spec_mean example_ops [3, 5])
              (np_multiply example_ops (np_float example_ops 2)
                 (spec_population_std example_ops [3, 5]))) 7]"
    by simp
  then have w7: "warning example_ops (lower_bounds example_ops \<lparr>shape1 = 2, rows = [[3, 4], [5, 8 :: real]]\<rparr>) (upper_bounds example_ops \<lparr>shape1 = 2, rows = [[3, 4], [5, 8 :: real]]\<rparr>) 0 [7]
      = [True]"
    by (simp add: m s) (simp add: example_ops_def)
  note c4 = t[THEN conjunct2, THEN conjunct2, THEN conjunct2, rule_format, of 0]
  from c4 irr ord
  have "warning example_ops (lower_bounds example_ops \<lparr>shape1 = 2, rows = [[3, 4], [5, 8 :: real]]\<rparr>) (upper_bounds example_ops \<lparr>shape1 = 2, rows = [[3, 4], [5, 8 :: real]]\<rparr>) 0
          [spec_lower example_ops [3, 5], spec_upper example_ops [3, 5]] = [False, False]"
    by simp
  then have wb: "warning example_ops (lower_bounds example_ops \<lparr>shape1 = 2, rows = [[3, 4], [5, 8 :: real]]\<rparr>) (upper_bounds example_ops \<lparr>shape1 = 2, rows = [[3, 4], [5, 8 :: real]]\<rparr>) 0
          [2, 6] = [False, False]"
    by (simp only: lo up)
  from t[THEN conjunct1] obtain e rest where r:
    "dataset_postdiagnostics example_ops (\<lambda>d l. None) example_reference example_test
       ''survey_labels_triangle.png'' =
     (e, concat (map (\<lambda>i. label_events [''logg'', ''teff''] [''t0'', ''t1'', ''t2'']
                            (map (spec_flagged example_ops (map (\<lambda>r. r ! i) (rows \<lparr>shape1 = 2, rows = [[3, 4], [5, 8 :: real]]\<rparr>)))
                               (map (\<lambda>r. r ! i)
                                  (rows \<lparr>shape1 = 2, rows = [[6, 10], [7, 11], [1, 5 :: real]]\<rparr>))) i)
                   [0..<length [''logg'', ''teff'']]) @ rest)"
    by blast
  have ev: "concat (map (\<lambda>i. label_events [''logg'', ''teff''] [''t0'', ''t1'', ''t2'']
                            (map (spec_flagged example_ops (map (\<lambda>r. r ! i) (rows \<lparr>shape1 = 2, rows = [[3, 4], [5, 8 :: real]]\<rparr>)))
                               (map (\<lambda>r. r ! i)
                                  (rows \<lparr>shape1 = 2, rows = [[6, 10], [7, 11], [1, 5 :: real]]\<rparr>))) i)
                   [0..<length [''logg'', ''teff'']])
     = [FileOpen ''flagged_stars_0.txt'',
           FileWrite ''flagged_stars_0.txt'' (''t1'' @ [CHR 0x0A]),
           FileWrite ''flagged_stars_0.txt'' (''t2'' @ [CHR 0x0A]),
           Print ''Reference label logg'',
           Print ''flagged 2 stars beyond 2-sig of reference labels'',
           Print ''Saved list flagged_stars_0.txt'',
           FileOpen ''flagged_stars_1.txt'',
           FileWrite ''flagged_stars_1.txt'' (''t1'' @ [CHR 0x0A]),
           Print ''Reference label teff'',
           Print ''flagged 1 stars beyond 2-sig of reference labels'',
           Print ''Saved list flagged_stars_1.txt'']"
    by (simp add: upt_conv_Cons spec_flagged_def lo up lo1 up1 label_events_def flagged_ids_def
        show_nat.simps digit_char_def)
       (simp add: example_ops_def)
  have t': "\<exists>e rest. dataset_postdiagnostics example_ops (\<lambda>d l. None) example_reference example_test
                ''survey_labels_triangle.png'' =
      (e, [FileOpen ''flagged_stars_0.txt'',
           FileWrite ''flagged_stars_0.txt'' (''t1'' @ [CHR 0x0A]),
           FileWrite ''flagged_stars_0.txt'' (''t2'' @ [CHR 0x0A]),
           Print ''Reference label logg'',
           Print ''flagged 2 stars beyond 2-sig of reference labels'',
           Print ''Saved list flagged_stars_0.txt'',
           FileOpen ''flagged_stars_1.txt'',
           FileWrite ''flagged_stars_1.txt'' (''t1'' @ [CHR 0x0A]),
           Print ''Reference label teff'',
           Print ''flagged 1 stars beyond 2-sig of reference labels'',
           Print ''Saved list flagged_stars_1.txt''] @ rest)"
    using r unfolding ev by blast
  show ?thesis
    by (intro conjI ex_ref_names ex_ref_vals ex_float_ref ex_test_vals ex_float_test ex_ids m s lo up
        ms[THEN conjunct1] ms[THEN conjunct2] w7 wb t')
qed



text \<open>
  C6: the events of \<^verbatim>\<open>dataset_postdiagnostics\<close> begin, label after label, with the file
  of the label, the IDs of the flagged test stars (taken from the \<^verbatim>\<open>id\<close> column of the
  test set) one per line and nothing else in the file, and the printed summary. The
  flagged IDs are those at the rows whose mask is True, in increasing row order, and the
  printed count \<^verbatim>\<open>sum(warning)\<close> is their number.
\<close>

theorem flagged_ids_output:
  assumes "label_names reference_set = Some names"
    and "label_vals ops reference_set = Inr Rc" and "as_float Rc = Inr R"
    and "label_vals ops test_set = Inr Tc" and "as_float Tc = Inr T"
    and "IDs test_set = Inr (map Str ids)" and "length ids = shape0 Tc"
    and "length names \<le> shape1 Rc" and "length names \<le> shape1 Tc"
  shows "(\<exists>e rest. dataset_postdiagnostics ops corner reference_set test_set plot_name =
           (e, concat (map (\<lambda>i. label_events names ids
                                  (warning ops (lower_bounds ops R) (upper_bounds ops R) i
                                     (map (\<lambda>r. r ! i) (rows T))) i)
                         [0..<length names]) @ rest)) \<and>
         (\<forall>i. flagged_ids ids (warning ops (lower_bounds ops R) (upper_bounds ops R) i
                                  (map (\<lambda>r. r ! i) (rows T)))
                = map ((!) ids)
                    (filter ((!) (warning ops (lower_bounds ops R) (upper_bounds ops R) i
                                    (map (\<lambda>r. r ! i) (rows T))))
                       [0..<length ids]) \<and>
              sum_bools (warning ops (lower_bounds ops R) (upper_bounds ops R) i (map (\<lambda>r. r ! i) (rows T)))
                = length (flagged_ids ids (warning ops (lower_bounds ops R) (upper_bounds ops R) i
                                             (map (\<lambda>r. r ! i) (rows T)))))"
proof -
  have len: "\<And>i. length (warning ops (lower_bounds ops R) (upper_bounds ops R) i (map (\<lambda>r. r ! i) (rows T)))
               = length ids"
    using as_float_length[OF assms(5)] assms(7) by (simp add: warning_def shape0_def)
  show ?thesis
    using postdiagnostics_flag_prefix[OF assms, of corner plot_name]
      flagged_ids_by_index[OF len] sum_bools_flagged[OF len]
    by blast
qed

theorem flagged_ids_output_witness:
  "label_names example_reference = Some [''logg'', ''teff''] \<and>
   label_vals example_ops example_reference = Inr \<lparr>shape1 = 2, rows = [[Num 3, Num 4], [Num 5, Num 8 :: real cell]]\<rparr> \<and>
   as_float \<lparr>shape1 = 2, rows = [[Num 3, Num 4], [Num 5, Num 8 :: real cell]]\<rparr>
     = Inr \<lparr>shape1 = 2, rows = [[3, 4], [5, 8 :: real]]\<rparr> \<and>
   label_vals example_ops example_test
     = Inr \<lparr>shape1 = 2, rows = [[Num 6, Num 10], [Num 7, Num 11], [Num 1, Num 5 :: real cell]]\<rparr> \<and>
   as_float \<lparr>shape1 = 2, rows = [[Num 6, Num 10], [Num 7, Num 11], [Num 1, Num 5 :: real cell]]\<rparr>
     = Inr \<lparr>shape1 = 2, rows = [[6, 10], [7, 11], [1, 5 :: real]]\<rparr> \<and>
   IDs example_test = Inr (map Str [''t0'', ''t1'', ''t2'']) \<and>
   flagged_ids [''t0'', ''t1'', ''t2'']
     (warning example_ops (lower_bounds example_ops \<lparr>shape1 = 2, rows = [[3, 4], [5, 8 :: real]]\<rparr>)
        (upper_bounds example_ops \<lparr>shape1 = 2, rows = [[3, 4], [5, 8 :: real]]\<rparr>) 0 [6, 7, 1]) = [''t1'', ''t2''] \<and>
   sum_bools (warning example_ops (lower_bounds example_ops \<lparr>shape1 = 2, rows = [[3, 4], [5, 8 :: real]]\<rparr>)
        (upper_bounds example_ops \<lparr>shape1 = 2, rows = [[3, 4], [5, 8 :: real]]\<rparr>) 0 [6, 7, 1]) = 2 \<and>
   (\<exists>e rest. dataset_postdiagnostics example_ops (\<lambda>d l. None) example_reference example_test
                ''survey_labels_triangle.png'' =
      (e, [FileOpen ''flagged_stars_0.txt'',
           FileWrite ''flagged_stars_0.txt'' (''t1'' @ [CHR 0x0A]),
           FileWrite ''flagged_stars_0.txt'' (''t2'' @ [CHR 0x0A]),
           Print ''Reference label logg'',
           Print ''flagged 2 stars beyond 2-sig of reference labels'',
           Print ''Saved list flagged_stars_0.txt'',
           FileOpen ''flagged_stars_1.txt'',
           FileWrite ''flagged_stars_1.txt'' (''t1'' @ [CHR 0x0A]),
           Print ''Reference label teff'',
           Print ''flagged 1 stars beyond 2-sig of reference labels'',
           Print ''Saved list flagged_stars_1.txt''] @ rest))"
proof -
  note t = flagged_ids_output [OF ex_ref_names ex_ref_vals ex_float_ref ex_test_vals
      ex_float_test ex_ids, of "\<lambda>d l. None" "''survey_labels_triangle.png''"]
  have w0: "warning example_ops [2, 2] [6, 10] 0 [6, 7, 1] = [False, True, True]"
    by (simp add: warning_def example_ops_def)
  have w1: "warning example_ops [2, 2] [6, 10] (Suc 0) [10, 11, 5] = [False, True, False]"
    by (simp add: warning_def example_ops_def)
  from t obtain e rest where r:
    "dataset_postdiagnostics example_ops (\<lambda>d l. None) example_reference example_test
       ''survey_labels_triangle.png'' =
     (e, concat (map (\<lambda>i. label_events [''logg'', ''teff''] [''t0'', ''t1'', ''t2'']
                            (warning example_ops (lower_bounds example_ops \<lparr>shape1 = 2, rows = [[3, 4], [5, 8 :: real]]\<rparr>)
                               (upper_bounds example_ops \<lparr>shape1 = 2, rows = [[3, 4], [5, 8 :: real]]\<rparr>) i
                               (map (\<lambda>r. r ! i)
                                  (rows \<lparr>shape1 = 2, rows = [[6, 10], [7, 11], [1, 5 :: real]]\<rparr>))) i)
                   [0..<length [''logg'', ''teff'']]) @ rest)"
    by (auto simp: shape0_def)
  have ev: "concat (map (\<lambda>i. label_events [''logg'', ''teff''] [''t0'', ''t1'', ''t2'']
                            (warning example_ops (lower_bounds example_ops \<lparr>shape1 = 2, rows = [[3, 4], [5, 8 :: real]]\<rparr>)
                               (upper_bounds example_ops \<lparr>shape1 = 2, rows = [[3, 4], [5, 8 :: real]]\<rparr>) i
                               (map (\<lambda>r. r ! i)
                                  (rows \<lparr>shape1 = 2, rows = [[6, 10], [7, 11], [1, 5 :: real]]\<rparr>))) i)
                   [0..<length [''logg'', ''teff'']])
     = [FileOpen ''flagged_stars_0.txt'',
           FileWrite ''flagged_stars_0.txt'' (''t1'' @ [CHR 0x0A]),
           FileWrite ''flagged_stars_0.txt'' (''t2'' @ [CHR 0x0A]),
           Print ''Reference label logg'',
           Print ''flagged 2 stars beyond 2-sig of reference labels'',
           Print ''Saved list flagged_stars_0.txt'',
           FileOpen ''flagged_stars_1.txt'',
           FileWrite ''flagged_stars_1.txt'' (''t1'' @ [CHR 0x0A]),
           Print ''Reference label teff'',
           Print ''flagged 1 stars beyond 2-sig of reference labels'',
           Print ''Saved list flagged_stars_1.txt'']"
    by (simp add: upt_conv_Cons ex_bounds w0 w1 label_events_def flagged_ids_def show_nat.simps
        digit_char_def)
  have t': "\<exists>e rest. dataset_postdiagnostics example_ops (\<lambda>d l. None) example_reference example_test
                ''survey_labels_triangle.png'' =
      (e, [FileOpen ''flagged_stars_0.txt'',
           FileWrite ''flagged_stars_0.txt'' (''t1'' @ [CHR 0x0A]),
           FileWrite ''flagged_stars_0.txt'' (''t2'' @ [CHR 0x0A]),
           Print ''Reference label logg'',
           Print ''flagged 2 stars beyond 2-sig of reference labels'',
           Print ''Saved list flagged_stars_0.txt'',
           FileOpen ''flagged_stars_1.txt'',
           FileWrite ''flagged_stars_1.txt'' (''t1'' @ [CHR 0x0A]),
           Print ''Reference label teff'',
           Print ''flagged 1 stars beyond 2-sig of reference labels'',
           Print ''Saved list flagged_stars_1.txt''] @ rest)"
    using r unfolding ev by blast
  have a: "flagged_ids [''t0'', ''t1'', ''t2'']
     (warning example_ops (lower_bounds example_ops \<lparr>shape1 = 2, rows = [[3, 4], [5, 8 :: real]]\<rparr>)
        (upper_bounds example_ops \<lparr>shape1 = 2, rows = [[3, 4], [5, 8 :: real]]\<rparr>) 0 [6, 7, 1]) = [''t1'', ''t2'']"
    by (simp add: ex_bounds w0 flagged_ids_def)
  have b: "sum_bools (warning example_ops (lower_bounds example_ops \<lparr>shape1 = 2, rows = [[3, 4], [5, 8 :: real]]\<rparr>)
        (upper_bounds example_ops \<lparr>shape1 = 2, rows = [[3, 4], [5, 8 :: real]]\<rparr>) 0 [6, 7, 1]) = 2"
    by (simp add: ex_bounds w0 sum_bools_def)
  show ?thesis
    by (intro conjI ex_ref_names ex_ref_vals ex_float_ref ex_test_vals ex_float_test ex_ids a b t')
qed

text \<open>
  C8: in the events of \<^verbatim>\<open>dataset_postdiagnostics\<close> the file that is opened and written
  for the label at index \<open>i\<close> is \<^verbatim>\<open>"flagged_stars_%s.txt" % i\<close>: its name is built from
  the decimal digits of the index (they denote \<open>i\<close>, with no leading zero) and from no
  label name, while the first printed line of the label carries the label name
  \<^verbatim>\<open>label_names[i]\<close>.
\<close>

theorem flagged_file_named_by_index:
  assumes "label_names reference_set = Some names"
    and "label_vals ops reference_set = Inr Rc" and "as_float Rc = Inr R"
    and "label_vals ops test_set = Inr Tc" and "as_float Tc = Inr T"
    and "IDs test_set = Inr (map Str ids)" and "length ids = shape0 Tc"
    and "length names \<le> shape1 Rc" and "length names \<le> shape1 Tc"
  shows "(\<exists>e rest. dataset_postdiagnostics ops corner reference_set test_set plot_name =
            (e, concat (map (\<lambda>i. FileOpen (''flagged_stars_'' @ show_nat i @ ''.txt'') #
                            map (\<lambda>s. FileWrite (''flagged_stars_'' @ show_nat i @ ''.txt'')
                                       (s @ [CHR 0x0A]))
                              (flagged_ids ids
                                 (warning ops (lower_bounds ops R) (upper_bounds ops R) i
                                    (map (\<lambda>r. r ! i) (rows T)))) @
                            [Print (''Reference label '' @ names ! i),
                             Print (''flagged '' @
                                    show_nat (length (flagged_ids ids
                                       (warning ops (lower_bounds ops R) (upper_bounds ops R) i
                                          (map (\<lambda>r. r ! i) (rows T))))) @
                                    '' stars beyond 2-sig of reference labels''),
                             Print (''Saved list flagged_stars_'' @ show_nat i @ ''.txt'')])
                      [0..<length names]) @ rest)) \<and>
         (\<forall>n. decimal_value (show_nat n) = n \<and> set (show_nat n) \<subseteq> set ''0123456789'' \<and>
              show_nat n \<noteq> [] \<and> (0 < n \<longrightarrow> hd (show_nat n) \<noteq> CHR ''0''))"
proof (intro conjI allI impI)
  from postdiagnostics_flag_prefix[OF assms, of corner plot_name]
  show "\<exists>e rest. dataset_postdiagnostics ops corner reference_set test_set plot_name =
            (e, concat (map (\<lambda>i. FileOpen (''flagged_stars_'' @ show_nat i @ ''.txt'') #
                            map (\<lambda>s. FileWrite (''flagged_stars_'' @ show_nat i @ ''.txt'')
                                       (s @ [CHR 0x0A]))
                              (flagged_ids ids
                                 (warning ops (lower_bounds ops R) (upper_bounds ops R) i
                                    (map (\<lambda>r. r ! i) (rows T)))) @
                            [Print (''Reference label '' @ names ! i),
                             Print (''flagged '' @
                                    show_nat (length (flagged_ids ids
                                       (warning ops (lower_bounds ops R) (upper_bounds ops R) i
                                          (map (\<lambda>r. r ! i) (rows T))))) @
                                    '' stars beyond 2-sig of reference labels''),
                             Print (''Saved list flagged_stars_'' @ show_nat i @ ''.txt'')])
                      [0..<length names]) @ rest)"
    by (simp add: label_events_def)
next
  fix n
  show "decimal_value (show_nat n) = n" by (rule show_nat_value)
  show "set (show_nat n) \<subseteq> set ''0123456789''" by (rule show_nat_digits)
  show "show_nat n \<noteq> []" by (rule show_nat_nonempty)
  assume "0 < n"
  then show "hd (show_nat n) \<noteq> CHR ''0''" by (rule show_nat_no_leading_zero)
qed

theorem flagged_file_named_by_index_witness:
  "label_names example_reference = Some [''logg'', ''teff''] \<and>
   label_vals example_ops example_reference
     = Inr \<lparr>shape1 = 2, rows = [[Num 3, Num 4], [Num 5, Num 8]]\<rparr> \<and>
   as_float \<lparr>shape1 = 2, rows = [[Num 3, Num 4], [Num 5, Num 8 :: real cell]]\<rparr>
     = Inr \<lparr>shape1 = 2, rows = [[3, 4], [5, 8]]\<rparr> \<and>
   label_vals example_ops example_test
     = Inr \<lparr>shape1 = 2, rows = [[Num 6, Num 10], [Num 7, Num 11], [Num 1, Num 5]]\<rparr> \<and>
   as_float \<lparr>shape1 = 2, rows = [[Num 6, Num 10], [Num 7, Num 11], [Num 1, Num 5 :: real cell]]\<rparr>
     = Inr \<lparr>shape1 = 2, rows = [[6, 10], [7, 11], [1, 5]]\<rparr> \<and>
   IDs example_test = Inr (map Str [''t0'', ''t1'', ''t2'']) \<and>
   show_nat 0 = ''0'' \<and> show_nat 1 = ''1'' \<and> show_nat 12 = ''12'' \<and>
   decimal_value ''12'' = 12 \<and> decimal_value ''0'' = 0 \<and>
   (\<exists>e rest. dataset_postdiagnostics example_ops (\<lambda>d l. None) example_reference example_test
                ''survey_labels_triangle.png'' =
      (e, [FileOpen ''flagged_stars_0.txt'',
           FileWrite ''flagged_stars_0.txt'' (''t1'' @ [CHR 0x0A]),
           FileWrite ''flagged_stars_0.txt'' (''t2'' @ [CHR 0x0A]),
           Print ''Reference label logg'',
           Print ''flagged 2 stars beyond 2-sig of reference labels'',
           Print ''Saved list flagged_stars_0.txt'',
           FileOpen ''flagged_stars_1.txt'',
           FileWrite ''flagged_stars_1.txt'' (''t1'' @ [CHR 0x0A]),
           Print ''Reference label teff'',
           Print ''flagged 1 stars beyond 2-sig of reference labels'',
           Print ''Saved list flagged_stars_1.txt''] @ rest))"
proof -
  have h7: "length [''t0'', ''t1'', ''t2'']
              = shape0 \<lparr>shape1 = 2, rows = [[Num 6, Num 10], [Num 7, Num 11], [Num 1, Num 5 :: real cell]]\<rparr>"
    by (simp add: shape0_def)
  have h8: "length [''logg'', ''teff'']
              \<le> shape1 \<lparr>shape1 = 2, rows = [[Num 3, Num 4], [Num 5, Num 8 :: real cell]]\<rparr>" by simp
  have h9: "length [''logg'', ''teff'']
              \<le> shape1 \<lparr>shape1 = 2, rows = [[Num 6, Num 10], [Num 7, Num 11], [Num 1, Num 5 :: real cell]]\<rparr>"
    by simp
  note t = flagged_file_named_by_index [OF ex_ref_names ex_ref_vals ex_float_ref ex_test_vals
      ex_float_test ex_ids h7 h8 h9, of "\<lambda>d l. None" "''survey_labels_triangle.png''"]
  have s0: "show_nat 0 = ''0''" by (simp add: show_nat.simps digit_char_def)
  have s1: "show_nat 1 = ''1''" by (simp add: show_nat.simps digit_char_def)
  have s12: "show_nat 12 = ''12''" by (simp add: show_nat.simps digit_char_def)
  from t[THEN conjunct2, rule_format, of 12] have d12: "decimal_value ''12'' = 12"
    by (simp add: s12)
  from t[THEN conjunct2, rule_format, of 0] have d0: "decimal_value ''0'' = 0"
    by (simp add: s0)
  have w0: "warning example_ops [2, 2] [6, 10] 0 [6, 7, 1] = [False, True, True]"
    by (simp add: warning_def example_ops_def)
  have w1: "warning example_ops [2, 2] [6, 10] (Suc 0) [10, 11, 5] = [False, True, False]"
    by (simp add: warning_def example_ops_def)
  from t[THEN conjunct1]
  have t': "\<exists>e rest. dataset_postdiagnostics example_ops (\<lambda>d l. None) example_reference example_test
                ''survey_labels_triangle.png'' =
      (e, [FileOpen ''flagged_stars_0.txt'',
           FileWrite ''flagged_stars_0.txt'' (''t1'' @ [CHR 0x0A]),
           FileWrite ''flagged_stars_0.txt'' (''t2'' @ [CHR 0x0A]),
           Print ''Reference label logg'',
           Print ''flagged 2 stars beyond 2-sig of reference labels'',
           Print ''Saved list flagged_stars_0.txt'',
           FileOpen ''flagged_stars_1.txt'',
           FileWrite ''flagged_stars_1.txt'' (''t1'' @ [CHR 0x0A]),
           Print ''Reference label teff'',
           Print ''flagged 1 stars beyond 2-sig of reference labels'',
           Print ''Saved list flagged_stars_1.txt''] @ rest)"
    by (simp add: upt_conv_Cons ex_bounds w0 w1 flagged_ids_def show_nat.simps digit_char_def)
  show ?thesis
    by (intro conjI ex_ref_names ex_ref_vals ex_float_ref ex_test_vals ex_float_test ex_ids
        s0 s1 s12 d12 d0 t')
qed

section \<open>The 1-to-1 plots\<close>

lemma one_to_one_mismatch:
  assumes "shape0 Rc \<noteq> shape0 Tc"
  shows "\<exists>e. one_to_one_label ops ref Rc Tc i = (Some e, []) \<and>
             e \<in> {AttributeError, TypeError, IndexError, ValueError}"
proof -
  have len: "\<And>R T. as_float Rc = Inr R \<Longrightarrow> as_float Tc = Inr T \<Longrightarrow>
               length (rows R) \<noteq> length (rows T)"
  proof -
    fix R T assume a: "as_float Rc = Inr R" and b: "as_float Tc = Inr T"
    from as_float_length[OF a] as_float_length[OF b] assms
    show "length (rows R) \<noteq> length (rows T)" by (simp add: shape0_def)
  qed
  have flt: "\<And>A e. as_float A = Inl e \<Longrightarrow> e = TypeError"
    by (auto simp: as_float_def split: option.splits)
  have gpl: "\<And>e. get_plotting_labels ref = Inl e \<Longrightarrow> e = AttributeError"
    by (auto simp: get_plotting_labels_def split: option.splits)
  show ?thesis
    unfolding one_to_one_label_def column_def Let_def
    by (auto split: sum.splits option.splits dest: len flt gpl)
qed

lemma one_to_one_value_error:
  assumes "shape0 Rc \<noteq> shape0 Tc" and "get_plotting_labels ref = Inr (Some pl)" and "i < length pl"
    and "i < shape1 Rc" and "i < shape1 Tc" and "as_float Rc = Inr R" and "as_float Tc = Inr T"
  shows "one_to_one_label ops ref Rc Tc i = (Some ValueError, [])"
proof -
  have "length (rows R) \<noteq> length (rows T)"
    using assms(1) as_float_length[OF assms(6)] as_float_length[OF assms(7)]
    by (simp add: shape0_def)
  then show ?thesis
    using assms(2-7) by (simp add: one_to_one_label_def column_def Let_def)
qed

text \<open>
  C7, as the code has it: when the reference and the test label arrays have different
  numbers of rows and there is at least one label, the loop of 1-to-1 plots stops in
  its first pass with a built-in exception and saves no figure. The exception is
  ValueError when the plotting labels, the first columns and the float dtype are in
  order, and AttributeError, TypeError, IndexError or ValueError in general; its class
  is never \<^verbatim>\<open>UnalignedComparisonError\<close>.
\<close>

theorem one_to_one_unaligned:
  "0 < nlabels \<and> shape0 Rc \<noteq> shape0 Tc \<longrightarrow>
     (\<exists>e. run_loop (one_to_one_label ops reference_set Rc Tc) [0..<nlabels] = (Some e, []) \<and>
          e \<in> {AttributeError, TypeError, IndexError, ValueError} \<and>
          exc_name e \<noteq> ''UnalignedComparisonError'') \<and>
     (get_plotting_labels reference_set = Inr (Some pl) \<and> pl \<noteq> [] \<and>
      0 < shape1 Rc \<and> 0 < shape1 Tc \<and> as_float Rc = Inr R \<and> as_float Tc = Inr T \<longrightarrow>
      run_loop (one_to_one_label ops reference_set Rc Tc) [0..<nlabels] = (Some ValueError, []))"
proof (intro impI conjI)
  assume h: "0 < nlabels \<and> shape0 Rc \<noteq> shape0 Tc"
  then have u: "[0..<nlabels] = 0 # [1..<nlabels]" by (simp add: upt_conv_Cons)
  from one_to_one_mismatch[where Rc = Rc and Tc = Tc and ref = reference_set and i = 0 and ops = ops] h obtain e where
    e: "one_to_one_label ops reference_set Rc Tc 0 = (Some e, [])"
       "e \<in> {AttributeError, TypeError, IndexError, ValueError}" by blast
  from e(2) have "exc_name e \<noteq> ''UnalignedComparisonError''" by auto
  with e show "\<exists>e. run_loop (one_to_one_label ops reference_set Rc Tc) [0..<nlabels] = (Some e, []) \<and>
          e \<in> {AttributeError, TypeError, IndexError, ValueError} \<and>
          exc_name e \<noteq> ''UnalignedComparisonError''"
    by (simp add: u)
next
  assume h: "0 < nlabels \<and> shape0 Rc \<noteq> shape0 Tc"
    and g: "get_plotting_labels reference_set = Inr (Some pl) \<and> pl \<noteq> [] \<and>
      0 < shape1 Rc \<and> 0 < shape1 Tc \<and> as_float Rc = Inr R \<and> as_float Tc = Inr T"
  then have u: "[0..<nlabels] = 0 # [1..<nlabels]" by (simp add: upt_conv_Cons)
  have "one_to_one_label ops reference_set Rc Tc 0 = (Some ValueError, [])"
    using h g by (intro one_to_one_value_error[where pl = pl and R = R and T = T]) simp_all
  then show "run_loop (one_to_one_label ops reference_set Rc Tc) [0..<nlabels] = (Some ValueError, [])"
    by (simp add: u)
qed

theorem one_to_one_unaligned_witness:
  "(0::nat) < 2 \<and>
   shape0 \<lparr>shape1 = 2, rows = [[Num 3, Num 4], [Num 5, Num 8 :: real cell]]\<rparr> = 2 \<and>
   shape0 \<lparr>shape1 = 2, rows = [[Num 6, Num 10], [Num 7, Num 11], [Num 1, Num 5 :: real cell]]\<rparr> = 3 \<and>
   get_plotting_labels example_reference = Inr (Some [''logg'', ''teff'']) \<and>
   as_float \<lparr>shape1 = 2, rows = [[Num 3, Num 4], [Num 5, Num 8 :: real cell]]\<rparr>
     = Inr \<lparr>shape1 = 2, rows = [[3, 4], [5, 8 :: real]]\<rparr> \<and>
   as_float \<lparr>shape1 = 2, rows = [[Num 6, Num 10], [Num 7, Num 11], [Num 1, Num 5 :: real cell]]\<rparr>
     = Inr \<lparr>shape1 = 2, rows = [[6, 10], [7, 11], [1, 5 :: real]]\<rparr> \<and>
   run_loop (one_to_one_label example_ops example_reference
               \<lparr>shape1 = 2, rows = [[Num 3, Num 4], [Num 5, Num 8 :: real cell]]\<rparr>
               \<lparr>shape1 = 2, rows = [[Num 6, Num 10], [Num 7, Num 11], [Num 1, Num 5 :: real cell]]\<rparr>) [0..<2]
   = (Some ValueError, [])"
proof -
  have g: "get_plotting_labels example_reference = Inr (Some [''logg'', ''teff''])"
    by (simp add: get_plotting_labels_def example_reference_def)
  have s1: "shape0 \<lparr>shape1 = 2, rows = [[Num 3, Num 4], [Num 5, Num 8 :: real cell]]\<rparr> = 2"
    by (simp add: shape0_def)
  have s2: "shape0 \<lparr>shape1 = 2, rows = [[Num 6, Num 10], [Num 7, Num 11], [Num 1, Num 5 :: real cell]]\<rparr> = 3"
    by (simp add: shape0_def)
  have v: "run_loop (one_to_one_label example_ops example_reference
               \<lparr>shape1 = 2, rows = [[Num 3, Num 4], [Num 5, Num 8 :: real cell]]\<rparr>
               \<lparr>shape1 = 2, rows = [[Num 6, Num 10], [Num 7, Num 11], [Num 1, Num 5 :: real cell]]\<rparr>) [0..<2]
   = (Some ValueError, [])"
    using one_to_one_unaligned [where nlabels = 2
        and Rc = "\<lparr>shape1 = 2, rows = [[Num 3, Num 4], [Num 5, Num 8 :: real cell]]\<rparr>"
        and Tc = "\<lparr>shape1 = 2, rows = [[Num 6, Num 10], [Num 7, Num 11], [Num 1, Num 5 :: real cell]]\<rparr>"
        and reference_set = example_reference and pl = "[''logg'', ''teff'']"
        and R = "\<lparr>shape1 = 2, rows = [[3, 4], [5, 8 :: real]]\<rparr>"
        and T = "\<lparr>shape1 = 2, rows = [[6, 10], [7, 11], [1, 5 :: real]]\<rparr>"
        and ops = example_ops]
      g s1 s2 ex_float_ref ex_float_test
    by simp
  show ?thesis using g s1 s2 ex_float_ref ex_float_test v by simp
qed

text \<open>
  C7 as stated fails: with a reference set of two stars and a test set of three, the
  exception of \<^verbatim>\<open>dataset_postdiagnostics\<close> is a ValueError, not an
  \<^verbatim>\<open>UnalignedComparisonError\<close>, and it comes after the flagged-star files and the
  triangle plot have been written.
\<close>

theorem postdiagnostics_unaligned_value_error:
  "shape0 \<lparr>shape1 = 2, rows = [[Num 3, Num 4], [Num 5, Num 8 :: real cell]]\<rparr> = 2 \<and>
   shape0 \<lparr>shape1 = 2, rows = [[Num 6, Num 10], [Num 7, Num 11], [Num 1, Num 5 :: real cell]]\<rparr> = 3 \<and>
   label_vals example_ops example_reference = Inr \<lparr>shape1 = 2, rows = [[Num 3, Num 4], [Num 5, Num 8 :: real cell]]\<rparr> \<and>
   label_vals example_ops example_test
     = Inr \<lparr>shape1 = 2, rows = [[Num 6, Num 10], [Num 7, Num 11], [Num 1, Num 5 :: real cell]]\<rparr> \<and>
   run_loop (one_to_one_label example_ops example_reference
               \<lparr>shape1 = 2, rows = [[Num 3, Num 4], [Num 5, Num 8 :: real cell]]\<rparr>
               \<lparr>shape1 = 2, rows = [[Num 6, Num 10], [Num 7, Num 11], [Num 1, Num 5 :: real cell]]\<rparr>) [0..<2]
     = (Some ValueError, []) \<and>
   exc_name ValueError \<noteq> ''UnalignedComparisonError'' \<and>
   dataset_postdiagnostics example_ops (\<lambda>d l. None) example_reference example_test ''survey_labels_triangle.png''
   = (Some ValueError,
      [FileOpen ''flagged_stars_0.txt'',
       FileWrite ''flagged_stars_0.txt'' (''t1'' @ [CHR 0x0A]),
       FileWrite ''flagged_stars_0.txt'' (''t2'' @ [CHR 0x0A]),
       Print ''Reference label logg'',
       Print ''flagged 2 stars beyond 2-sig of reference labels'',
       Print ''Saved list flagged_stars_0.txt'',
       FileOpen ''flagged_stars_1.txt'',
       FileWrite ''flagged_stars_1.txt'' (''t1'' @ [CHR 0x0A]),
       Print ''Reference label teff'',
       Print ''flagged 1 stars beyond 2-sig of reference labels'',
       Print ''Saved list flagged_stars_1.txt'',
       Print ''Plotting every label against every other'',
       SaveFig ''survey_labels_triangle.png'',
       Print ''Saved fig survey_labels_triangle.png''])"
proof -
  have s1: "shape0 \<lparr>shape1 = 2, rows = [[Num 3, Num 4], [Num 5, Num 8 :: real cell]]\<rparr> = 2"
    by (simp add: shape0_def)
  have s2: "shape0 \<lparr>shape1 = 2, rows = [[Num 6, Num 10], [Num 7, Num 11], [Num 1, Num 5 :: real cell]]\<rparr> = 3"
    by (simp add: shape0_def)
  have n: "exc_name ValueError \<noteq> ''UnalignedComparisonError''" by simp
  show ?thesis by (intro conjI s1 s2 ex_ref_vals ex_test_vals ex_one_to_one n ex_run)
qed

end
